theory Spec2Isabelle
  imports Complex_Main
begin

section \<open>Numbers and vectors\<close>

text \<open>
  JavaScript numbers are modelled as real numbers: the rounding of IEEE doubles is
  abstracted away, and the infinities do not occur. The one place where the game
  logic produces a NaN from real inputs, \<^verbatim>\<open>Math.pow\<close> of a negative base with the
  exponent 1/3, is modelled by \<open>None\<close>. A property read from an object that does
  not have it (\<^verbatim>\<open>undefined\<close>) is \<open>None\<close> as well.

  \<^verbatim>\<open>THREE.Vector3\<close> is the library's vector class; its operations are modelled by
  their documented meaning. \<^verbatim>\<open>normalize()\<close> divides by \<^verbatim>\<open>length() || 1\<close>, so the
  zero vector stays the zero vector.
\<close>

datatype vec3 = Vector3 (X: real) (Y: real) (Z: real)

definition subVectors :: "vec3 \<Rightarrow> vec3 \<Rightarrow> vec3" where
  "subVectors a b = Vector3 (X a - X b) (Y a - Y b) (Z a - Z b)"

definition multiplyScalar :: "vec3 \<Rightarrow> real \<Rightarrow> vec3" where
  "multiplyScalar v s = Vector3 (X v * s) (Y v * s) (Z v * s)"

definition dot :: "vec3 \<Rightarrow> vec3 \<Rightarrow> real" where
  "dot a b = X a * X b + Y a * Y b + Z a * Z b"

definition lengthSq :: "vec3 \<Rightarrow> real" where
  "lengthSq v = X v * X v + Y v * Y v + Z v * Z v"

definition length_v :: "vec3 \<Rightarrow> real" where
  "length_v v = sqrt (lengthSq v)"

definition distanceTo :: "vec3 \<Rightarrow> vec3 \<Rightarrow> real" where
  "distanceTo a b = length_v (subVectors a b)"

definition normalize :: "vec3 \<Rightarrow> vec3" where
  "normalize v = (let l = length_v v in multiplyScalar v (1 / (if l = 0 then 1 else l)))"

text \<open>\<^verbatim>\<open>a || b\<close> on numbers: \<open>b\<close> when \<open>a\<close> is undefined or 0.\<close>

definition or_number :: "real option \<Rightarrow> real \<Rightarrow> real" where
  "or_number a b = (case a of None \<Rightarrow> b | Some v \<Rightarrow> if v = 0 then b else v)"

text \<open>
  \<^verbatim>\<open>Math.pow(x, 1/3)\<close>: NaN for a negative base, the cube root otherwise.
\<close>

definition Math_pow_third :: "real \<Rightarrow> real option" where
  "Math_pow_third x = (if x < 0 then None else Some (x powr (1 / 3)))"

section \<open>Meshes\<close>

text \<open>
  A world body is a \<^verbatim>\<open>THREE.Mesh\<close>: a position, a geometry (whose class the growth
  step inspects with \<^verbatim>\<open>instanceof\<close>, and whose \<^verbatim>\<open>parameters\<close> give the box
  dimensions of a barrier), the \<^verbatim>\<open>userData\<close> bag (type, size, collisionRadius,
  isBarrier) and the world matrix. The library computes the world matrix and its
  inverse; both are kept as the maps that \<^verbatim>\<open>applyMatrix4\<close> performs with them.
\<close>

datatype geometry =
    BoxGeometry real real real
  | SphereGeometry real
  | ConeGeometry real real
  | CylinderGeometry real real real
  | OtherGeometry

record mesh =
  position :: vec3
  geometry :: geometry
  color :: "nat option"
  ud_type :: string
  ud_size :: real
  ud_collisionRadius :: "real option"
  ud_isBarrier :: bool
  matrixWorld :: "vec3 \<Rightarrow> vec3"
  matrixWorldInverse :: "vec3 \<Rightarrow> vec3"

text \<open>The player sphere: position, \<^verbatim>\<open>userData.velocity\<close> and
  \<^verbatim>\<open>geometry.parameters.radius\<close>.\<close>

record playerSphere =
  p_position :: vec3
  p_velocity :: vec3
  p_radius :: real

section \<open>Physics: the collision scan\<close>

text \<open>
  The sources hold several revisions of the \<^verbatim>\<open>Physics\<close> class. The one modelled is the
  revision with barriers: it reads the collision radius that a body carries
  (\<^verbatim>\<open>collisionRadius || size\<close>), keeps the larger bodies static and corrects the player's
  position.
\<close>

record larger_collision =
  lc_object :: mesh
  lc_distance :: real
  lc_objectRadius :: real
  lc_objectPosition :: vec3

record scan_lists =
  collisions :: "mesh list"
  largerCollisions :: "larger_collision list"
  barrierCollisions :: "mesh list"

text \<open>
  The closest point of a barrier's box to the player's centre, in world space.
  A geometry that is not a box has no \<^verbatim>\<open>parameters.width\<close>: the half width is NaN
  and so is every distance computed from it (\<open>None\<close>).
\<close>

definition worldClosestPoint :: "vec3 \<Rightarrow> mesh \<Rightarrow> vec3 option" where
  "worldClosestPoint playerPos barrier =
     (case geometry barrier of
        BoxGeometry width height depth \<Rightarrow>
          (let localPlayerPos = matrixWorldInverse barrier playerPos;
               boxHalfWidth = width / 2;
               boxHalfHeight = height / 2;
               boxHalfDepth = depth / 2;
               closestPoint = Vector3
                 (max (- boxHalfWidth) (min boxHalfWidth (X localPlayerPos)))
                 (max (- boxHalfHeight) (min boxHalfHeight (Y localPlayerPos)))
                 (max (- boxHalfDepth) (min boxHalfDepth (Z localPlayerPos)))
           in Some (matrixWorld barrier closestPoint))
      | _ \<Rightarrow> None)"

definition checkBarrierCollision :: "playerSphere \<Rightarrow> mesh \<Rightarrow> real \<Rightarrow> bool" where
  "checkBarrierCollision player barrier playerRadius =
     (case worldClosestPoint (p_position player) barrier of
        None \<Rightarrow> False
      | Some wcp \<Rightarrow> distanceTo (p_position player) wcp < playerRadius)"

text \<open>The body of the \<^verbatim>\<open>objects.forEach\<close> of \<^verbatim>\<open>checkCollisions\<close>.\<close>

definition scanObject :: "playerSphere \<Rightarrow> real \<Rightarrow> scan_lists \<Rightarrow> mesh \<Rightarrow> scan_lists" where
  "scanObject player playerSize acc object =
     (if ud_isBarrier object then
        (if checkBarrierCollision player object playerSize
         then acc\<lparr>barrierCollisions := barrierCollisions acc @ [object]\<rparr>
         else acc)
      else
        (let objectPosition = position object;
             distance = distanceTo (p_position player) objectPosition;
             objectRadius = or_number (ud_collisionRadius object) (ud_size object)
         in if distance < playerSize + objectRadius then
              (if ud_size object < playerSize
               then acc\<lparr>collisions := collisions acc @ [object]\<rparr>
               else acc\<lparr>largerCollisions := largerCollisions acc @
                      [\<lparr>lc_object = object, lc_distance = distance,
                        lc_objectRadius = objectRadius,
                        lc_objectPosition = objectPosition\<rparr>]\<rparr>)
            else acc))"

definition scanObjects :: "playerSphere \<Rightarrow> real \<Rightarrow> mesh list \<Rightarrow> scan_lists" where
  "scanObjects player playerSize objs =
     foldl (scanObject player playerSize)
       \<lparr>collisions = [], largerCollisions = [], barrierCollisions = []\<rparr> objs"

section \<open>Physics: the collision response\<close>

text \<open>
  The response to one larger (blocking) body. The push direction is read from the
  player's live position, the distance from the record taken during the scan.
\<close>

definition handleLargerObjectCollision ::
    "real \<Rightarrow> playerSphere \<Rightarrow> larger_collision \<Rightarrow> playerSphere" where
  "handleLargerObjectCollision playerRadius player collision =
     (let object = lc_object collision;
          objectPosition = lc_objectPosition collision;
          distance = lc_distance collision;
          objectRadius = lc_objectRadius collision;
          overlap = (playerRadius + objectRadius) - distance
      in if overlap > 0 then
           (let pushDirection = normalize (subVectors (p_position player) objectPosition);
                sizeFactor = min (ud_size object / playerRadius) 10;
                pushForceFactor = 0.2 + (ln (sizeFactor + 1) * 0.1);
                pushForce = overlap * pushForceFactor;
                v = p_velocity player;
                v1 = Vector3 (X v + X pushDirection * pushForce) (Y v)
                             (Z v + Z pushDirection * pushForce);
                positionCorrection = min (overlap * 0.5) 0.2;
                p = p_position player;
                p1 = Vector3 (X p + X pushDirection * positionCorrection) (Y p)
                             (Z p + Z pushDirection * positionCorrection);
                speed = length_v (Vector3 (X v1) 0 (Z v1));
                v2 = (if speed > 5 \<and> sizeFactor > 2
                      then Vector3 (X v1) (Y v1 + speed * 0.05) (Z v1) else v1)
            in player\<lparr>p_position := p1, p_velocity := v2\<rparr>)
         else player)"

definition handleLargerObjectCollisions ::
    "playerSphere \<Rightarrow> larger_collision list \<Rightarrow> real \<Rightarrow> playerSphere" where
  "handleLargerObjectCollisions player largerCs playerRadius =
     foldl (handleLargerObjectCollision playerRadius) player largerCs"

text \<open>
  The response to one barrier. \<open>playerPos\<close> is the clone taken before the loop
  over the barriers, \<open>playerRadius\<close> the radius of the player's geometry.
\<close>

definition handleBarrierCollision ::
    "vec3 \<Rightarrow> real \<Rightarrow> playerSphere \<Rightarrow> mesh \<Rightarrow> playerSphere" where
  "handleBarrierCollision playerPos playerRadius player barrier =
     (case worldClosestPoint playerPos barrier of
        None \<Rightarrow> player
      | Some wcp \<Rightarrow>
          (let collisionNormal = normalize (subVectors playerPos wcp);
               penetrationDepth = playerRadius - distanceTo playerPos wcp
           in if penetrationDepth > 0 then
                (let p = p_position player;
                     p1 = Vector3 (X p + X collisionNormal * (penetrationDepth * 1.01)) (Y p)
                                  (Z p + Z collisionNormal * (penetrationDepth * 1.01));
                     velocity = p_velocity player;
                     currentVelocity = Vector3 (X velocity) 0 (Z velocity);
                     d = dot currentVelocity collisionNormal
                 in if d < 0 then
                      (let reflectedVelocity =
                             subVectors currentVelocity (multiplyScalar collisionNormal (2 * d))
                       in player\<lparr>p_position := p1,
                                  p_velocity := Vector3 (X reflectedVelocity * 0.7) (Y velocity)
                                                        (Z reflectedVelocity * 0.7)\<rparr>)
                    else player\<lparr>p_position := p1\<rparr>)
              else player))"

definition handleBarrierCollisions :: "playerSphere \<Rightarrow> mesh list \<Rightarrow> playerSphere" where
  "handleBarrierCollisions player barriers =
     foldl (handleBarrierCollision (p_position player) (p_radius player)) player barriers"

text \<open>\<^verbatim>\<open>checkCollisions\<close> returns the absorbable bodies; the player is mutated by the
  two handlers.\<close>

definition checkCollisions ::
    "playerSphere \<Rightarrow> mesh list \<Rightarrow> real \<Rightarrow> mesh list \<times> playerSphere" where
  "checkCollisions player objs playerSize =
     (let s = scanObjects player playerSize objs;
          player1 = (if largerCollisions s \<noteq> []
                     then handleLargerObjectCollisions player (largerCollisions s) playerSize
                     else player);
          player2 = (if barrierCollisions s \<noteq> []
                     then handleBarrierCollisions player1 (barrierCollisions s)
                     else player1)
      in (collisions s, player2))"

text \<open>\<^verbatim>\<open>applyPhysics\<close>: gravity, ground contact with friction, integration. The
  rotation of the mesh is presentation and is left out.\<close>

definition applyPhysics :: "playerSphere \<Rightarrow> real \<Rightarrow> playerSphere" where
  "applyPhysics player delta =
     (let velocity = p_velocity player;
          p = p_position player;
          (p1, v1) = (if Y p > p_radius player
                      then (p, Vector3 (X velocity) (Y velocity - 9.8 * delta) (Z velocity))
                      else (Vector3 (X p) (p_radius player) (Z p),
                            Vector3 (X velocity * 0.95) 0 (Z velocity * 0.95)))
      in player\<lparr>p_position := Vector3 (X p1 + X v1 * delta) (Y p1 + Y v1 * delta)
                                         (Z p1 + Z v1 * delta),
                 p_velocity := v1\<rparr>)"

section \<open>The object manager\<close>

text \<open>
  \<^verbatim>\<open>window.GAME_CONFIG\<close>. \<^verbatim>\<open>Math.random()\<close> is a stream of numbers \<open>rnd 0, rnd 1, \<dots>\<close>
  (each in \<open>[0, 1)\<close>) read through a counter that every draw advances.
\<close>

record game_config =
  INITIAL_OBJECTS_COUNT :: int
  MAX_OBJECTS_COUNT :: int
  MAP_SIZE :: real
  PLAYABLE_AREA :: real
  MAX_OBJECT_SIZE :: real
  RESPAWN_OBJECTS :: bool
  MAX_SCREEN_PERCENTAGE :: real
  CAMERA_ZOOM_RATE :: real
  BALL_SPEED :: real

datatype error = TypeError

record object_definition =
  od_id :: string
  od_geometryType :: string
  od_sizeRange :: "real \<times> real"

definition objectDefinitions :: "game_config \<Rightarrow> object_definition list" where
  "objectDefinitions cfg =
     [\<lparr>od_id = ''smallCube'', od_geometryType = ''box'', od_sizeRange = (0.5, 10)\<rparr>,
      \<lparr>od_id = ''smallSphere'', od_geometryType = ''sphere'', od_sizeRange = (0.5, 15)\<rparr>,
      \<lparr>od_id = ''mediumCube'', od_geometryType = ''box'', od_sizeRange = (5, 25)\<rparr>,
      \<lparr>od_id = ''mediumSphere'', od_geometryType = ''sphere'', od_sizeRange = (5, 30)\<rparr>,
      \<lparr>od_id = ''cone'', od_geometryType = ''cone'', od_sizeRange = (3, 20)\<rparr>,
      \<lparr>od_id = ''cylinder'', od_geometryType = ''cylinder'', od_sizeRange = (3, 25)\<rparr>,
      \<lparr>od_id = ''largeCube'', od_geometryType = ''box'', od_sizeRange = (10, 50)\<rparr>,
      \<lparr>od_id = ''largeSphere'', od_geometryType = ''sphere'', od_sizeRange = (10, 60)\<rparr>,
      \<lparr>od_id = ''hugeCube'', od_geometryType = ''box'',
        od_sizeRange = (30, MAX_OBJECT_SIZE cfg / 2)\<rparr>,
      \<lparr>od_id = ''hugeSphere'', od_geometryType = ''sphere'',
        od_sizeRange = (30, MAX_OBJECT_SIZE cfg)\<rparr>]"

text \<open>\<^verbatim>\<open>String.prototype.includes\<close>.\<close>

fun str_includes :: "string \<Rightarrow> string \<Rightarrow> bool" where
  "str_includes [] sub = (sub = [])"
| "str_includes (c # cs) sub = (take (length sub) (c # cs) = sub \<or> str_includes cs sub)"

definition randomInRange :: "real \<Rightarrow> real \<Rightarrow> real \<Rightarrow> real" where
  "randomInRange lo hi u = lo + u * (hi - lo)"

text \<open>\<^verbatim>\<open>xs[Math.floor(u * xs.length)]\<close>; \<open>None\<close> is \<^verbatim>\<open>undefined\<close>.\<close>

definition pickRandom :: "'a list \<Rightarrow> real \<Rightarrow> 'a option" where
  "pickRandom xs u =
     (let k = \<lfloor>u * real (length xs)\<rfloor>
      in if 0 \<le> k \<and> k < int (length xs) then Some (xs ! nat k) else None)"

definition MAX_ATTEMPTS :: nat where
  "MAX_ATTEMPTS = 50"

definition effectiveRadius :: "string \<Rightarrow> real \<Rightarrow> real" where
  "effectiveRadius geometryType s =
     (if geometryType = ''box'' then s * 0.7
      else if geometryType = ''cone'' \<or> geometryType = ''cylinder'' then s * 0.5
      else s)"

text \<open>The distance in the ground plane that the allocator computes.\<close>

definition planarDistance :: "vec3 \<Rightarrow> vec3 \<Rightarrow> real" where
  "planarDistance a b = sqrt ((X a - X b)\<^sup>2 + (Z a - Z b)\<^sup>2)"

text \<open>The inner loop over \<^verbatim>\<open>this.objects\<close>, which breaks at the first overlap.\<close>

primrec hasOverlap :: "vec3 \<Rightarrow> real \<Rightarrow> mesh list \<Rightarrow> bool" where
  "hasOverlap pos effR [] = False"
| "hasOverlap pos effR (object # rest) =
     (let objRadius = effectiveRadius (ud_type object) (ud_size object);
          distance = planarDistance pos (position object)
      in if distance < effR + objRadius + 0.5 then True else hasOverlap pos effR rest)"

text \<open>
  The attempt loop, by the number of attempts left. \<open>playerPosition\<close> is the position
  of the scene object named \<^verbatim>\<open>playerSphere\<close>, \<open>None\<close> when the scene has none; the
  scene belongs to the game controller.
\<close>

fun findAttempts ::
    "nat \<Rightarrow> real \<Rightarrow> real \<Rightarrow> real \<Rightarrow> vec3 option \<Rightarrow> mesh list \<Rightarrow> (nat \<Rightarrow> real) \<Rightarrow> nat
      \<Rightarrow> vec3 option \<times> nat" where
  "findAttempts 0 maxCoord effR playerSize playerPosition objs rnd i = (None, i)"
| "findAttempts (Suc n) maxCoord effR playerSize playerPosition objs rnd i =
     (let pos = Vector3 (randomInRange (- maxCoord) maxCoord (rnd i)) 0
                        (randomInRange (- maxCoord) maxCoord (rnd (i + 1)));
          tooClose = (case playerPosition of
                        None \<Rightarrow> False
                      | Some pp \<Rightarrow> planarDistance pos pp < playerSize + effR + 5)
      in if tooClose then findAttempts n maxCoord effR playerSize playerPosition objs rnd (i + 2)
         else if hasOverlap pos effR objs
         then findAttempts n maxCoord effR playerSize playerPosition objs rnd (i + 2)
         else (Some pos, i + 2))"

definition findNonOverlappingPosition ::
    "game_config \<Rightarrow> vec3 option \<Rightarrow> mesh list \<Rightarrow> real \<Rightarrow> string \<Rightarrow> real \<Rightarrow> (nat \<Rightarrow> real) \<Rightarrow> nat
      \<Rightarrow> vec3 option \<times> nat" where
  "findNonOverlappingPosition cfg playerPosition objs s geometryType playerSize rnd i =
     (let maxCoord = min (PLAYABLE_AREA cfg) (MAP_SIZE cfg / 2 - s);
          effR = effectiveRadius geometryType s
      in findAttempts MAX_ATTEMPTS maxCoord effR playerSize playerPosition objs rnd i)"

definition translation :: "vec3 \<Rightarrow> vec3 \<Rightarrow> vec3" where
  "translation t v = Vector3 (X v + X t) (Y v + Y t) (Z v + Z t)"

definition createObject :: "string \<Rightarrow> real \<Rightarrow> vec3 \<Rightarrow> nat option \<Rightarrow> mesh" where
  "createObject type s pos col =
     (let groundLevel = - 0.5;
          (geo, yOffset) =
            (if type = ''box'' then (BoxGeometry s s s, s / 2)
             else if type = ''sphere'' then (SphereGeometry s, s)
             else if type = ''cone'' then (ConeGeometry s (s * 2), s)
             else if type = ''cylinder'' then (CylinderGeometry s s (s * 2), s)
             else (SphereGeometry s, s));
          p = Vector3 (X pos) (groundLevel + yOffset) (Z pos)
      in \<lparr>position = p, geometry = geo, color = col, ud_type = type, ud_size = s,
          ud_collisionRadius = None, ud_isBarrier = False,
          matrixWorld = translation p,
          matrixWorldInverse = translation (multiplyScalar p (- 1))\<rparr>)"

definition colors :: "nat list" where
  "colors = [0xFF0000, 0xFFA500, 0xFFFF00, 0x008000, 0x0000FF, 0x4B0082, 0xEE82EE]"

text \<open>
  \<^verbatim>\<open>spawnRandomObject\<close> returns the new object (or null), the object list and the
  counter of the random stream. Reading \<^verbatim>\<open>sizeRange\<close> of an undefined definition
  throws.
\<close>

definition spawnRandomObject ::
    "game_config \<Rightarrow> vec3 option \<Rightarrow> mesh list \<Rightarrow> real \<Rightarrow> (nat \<Rightarrow> real) \<Rightarrow> nat
      \<Rightarrow> error + (mesh option \<times> mesh list \<times> nat)" where
  "spawnRandomObject cfg playerPosition objs playerSize rnd i =
     (if int (length objs) \<ge> MAX_OBJECTS_COUNT cfg then Inr (None, objs, i)
      else
        (let defs = objectDefinitions cfg;
             smallObjects = filter (\<lambda>obj. snd (od_sizeRange obj) \<le> 15
                                          \<and> str_includes (od_id obj) ''small'') defs;
             mediumObjects = filter (\<lambda>obj. (snd (od_sizeRange obj) > 15
                                            \<and> snd (od_sizeRange obj) \<le> 30)
                                          \<or> (str_includes (od_id obj) ''medium''
                                              \<or> od_id obj = ''cone''
                                              \<or> od_id obj = ''cylinder'')) defs;
             largeObjects = filter (\<lambda>obj. snd (od_sizeRange obj) > 30
                                          \<or> str_includes (od_id obj) ''large''
                                          \<or> str_includes (od_id obj) ''huge'') defs;
             randomValue = rnd i;
             picked = (if randomValue < 0.6 then pickRandom smallObjects (rnd (i + 1))
                       else if randomValue < 0.9 then pickRandom mediumObjects (rnd (i + 1))
                       else pickRandom largeObjects (rnd (i + 1)));
             (objectDef, i1) = (case picked of
                                  None \<Rightarrow> (pickRandom defs (rnd (i + 2)), i + 3)
                                | Some d \<Rightarrow> (Some d, i + 2))
         in case objectDef of
              None \<Rightarrow> Inl TypeError
            | Some def \<Rightarrow>
                (let minSize = fst (od_sizeRange def);
                     maxSize = min (snd (od_sizeRange def)) (MAX_OBJECT_SIZE cfg);
                     s = (if def \<in> set smallObjects
                          then minSize + sqrt (rnd i1) * (maxSize - minSize)
                          else randomInRange minSize maxSize (rnd i1));
                     (found, i2) = findNonOverlappingPosition cfg playerPosition objs s
                                     (od_geometryType def) playerSize rnd (i1 + 1)
                 in case found of
                      None \<Rightarrow> Inr (None, objs, i2)
                    | Some pos \<Rightarrow>
                        (let col = pickRandom colors (rnd i2);
                             object = createObject (od_geometryType def) s pos col
                         in Inr (Some object, objs @ [object], i2 + 1)))))"

text \<open>\<^verbatim>\<open>removeObject\<close>: \<^verbatim>\<open>indexOf\<close> and \<^verbatim>\<open>splice\<close> remove the first occurrence. Meshes
  are compared by value.\<close>

definition removeObject :: "mesh list \<Rightarrow> mesh \<Rightarrow> mesh list" where
  "removeObject objs object = remove1 object objs"

definition cullMark :: "real \<Rightarrow> real \<Rightarrow> mesh list \<Rightarrow> mesh \<Rightarrow> mesh list" where
  "cullMark minRelevantSize cullDistanceThreshold objectsToRemove object =
     (if ud_size object < minRelevantSize \<and> ud_size object < 5 then
        (let distanceSq = lengthSq (position object)
         in if distanceSq > cullDistanceThreshold
            then objectsToRemove @ [object] else objectsToRemove)
      else objectsToRemove)"

definition cullTinyObjects :: "game_config \<Rightarrow> mesh list \<Rightarrow> real \<Rightarrow> mesh list" where
  "cullTinyObjects cfg objs playerSize =
     (let minRelevantSize = playerSize * 0.1;
          playableArea = PLAYABLE_AREA cfg;
          cullDistanceThreshold = playableArea * playableArea;
          objectsToRemove = foldl (cullMark minRelevantSize cullDistanceThreshold) [] objs
      in foldl removeObject objs objectsToRemove)"

text \<open>The spawn loop of \<^verbatim>\<open>checkAndSpawnObjects\<close>.\<close>

function spawnLoop ::
    "game_config \<Rightarrow> vec3 option \<Rightarrow> real \<Rightarrow> (nat \<Rightarrow> real) \<Rightarrow> int \<Rightarrow> int \<Rightarrow> int \<Rightarrow> int
      \<Rightarrow> mesh list \<Rightarrow> nat \<Rightarrow> error + (mesh list \<times> nat)" where
  "spawnLoop cfg playerPosition playerSize rnd objectsToSpawn maxSpawnAttempts
       successfulSpawns totalAttempts objs i =
     (if successfulSpawns < objectsToSpawn \<and> totalAttempts < maxSpawnAttempts then
        (case spawnRandomObject cfg playerPosition objs playerSize rnd i of
           Inl e \<Rightarrow> Inl e
         | Inr (newObject, objs', i') \<Rightarrow>
             (let totalAttempts' = totalAttempts + 1;
                  successfulSpawns' = (if newObject \<noteq> None then successfulSpawns + 1
                                       else successfulSpawns)
              in if totalAttempts' \<ge> 10 \<and> successfulSpawns' = 0 then Inr (objs', i')
                 else spawnLoop cfg playerPosition playerSize rnd objectsToSpawn
                        maxSpawnAttempts successfulSpawns' totalAttempts' objs' i'))
      else Inr (objs, i))"
  by pat_completeness auto
termination
  by (relation "measure (\<lambda>(cfg, pp, ps, rnd, n, m, s, t, objs, i). nat (m - t))") auto

definition checkAndSpawnObjects ::
    "game_config \<Rightarrow> vec3 option \<Rightarrow> mesh list \<Rightarrow> real \<Rightarrow> (nat \<Rightarrow> real) \<Rightarrow> nat
      \<Rightarrow> error + (mesh list \<times> nat)" where
  "checkAndSpawnObjects cfg playerPosition objs playerSize rnd i =
     (if \<not> RESPAWN_OBJECTS cfg then Inr (objs, i)
      else
        (let desiredObjectCount = min (MAX_OBJECTS_COUNT cfg) (INITIAL_OBJECTS_COUNT cfg);
             objectsToSpawn = desiredObjectCount - int (length objs);
             maxSpawnAttempts = objectsToSpawn * 2
         in case spawnLoop cfg playerPosition playerSize rnd objectsToSpawn maxSpawnAttempts
                   0 0 objs i of
              Inl e \<Rightarrow> Inl e
            | Inr (objs', i') \<Rightarrow> Inr (cullTinyObjects cfg objs' playerSize, i')))"

section \<open>Helpers\<close>

definition calculateSphereVolume :: "real \<Rightarrow> real" where
  "calculateSphereVolume radius = (4 / 3) * pi * radius ^ 3"

definition calculateNewRadius :: "real \<Rightarrow> real \<Rightarrow> real option" where
  "calculateNewRadius currentRadius addedVolume =
     (let currentVolume = calculateSphereVolume currentRadius;
          newVolume = currentVolume + addedVolume
      in Math_pow_third ((3 * newVolume) / (4 * pi)))"

section \<open>The camera controller\<close>

text \<open>The revision of \<^verbatim>\<open>CameraController\<close> that derives the distance from the screen
  percentage is the one modelled.\<close>

record camera =
  cam_distance :: real
  cam_height :: real
  cam_fov :: real
  cam_rotationAngle :: real

text \<open>
  \<^verbatim>\<open>updateCameraForSize\<close>. The position of the camera object, computed from the
  distance, height and rotation angle, is presentation and is left out.
\<close>

definition updateCameraForSize :: "game_config \<Rightarrow> camera \<Rightarrow> real \<Rightarrow> camera" where
  "updateCameraForSize cfg cam sphereSize0 =
     (let sphereSize = (if sphereSize0 \<le> 0 then 1 else sphereSize0);
          maxScreenPercentage = or_number (Some (MAX_SCREEN_PERCENTAGE cfg)) 30;
          zoomRate = or_number (Some (CAMERA_ZOOM_RATE cfg)) 1.5;
          fovRadians = cam_fov cam * pi / 180;
          baseDistance = sphereSize / (maxScreenPercentage / 100) / tan (fovRadians / 2);
          playableAreaScale = max 1 (PLAYABLE_AREA cfg / 400);
          distance = baseDistance * zoomRate * playableAreaScale;
          heightRatio = 0.5;
          baseFOV = 75;
          targetFOV = baseFOV - 5 + (sphereSize * 0.2)
      in cam\<lparr>cam_distance := distance,
              cam_height := distance * heightRatio,
              cam_fov := max 60 (min 100 targetFOV)\<rparr>)"

definition rotateCamera :: "camera \<Rightarrow> real \<Rightarrow> camera" where
  "rotateCamera cam angleChange = cam\<lparr>cam_rotationAngle := cam_rotationAngle cam + angleChange\<rparr>"

section \<open>The input handler\<close>

text \<open>The four directions, each the disjunction of its keys and touch control.\<close>

record input_keys =
  k_up :: bool
  k_down :: bool
  k_left :: bool
  k_right :: bool

definition inputUpdate ::
    "game_config \<Rightarrow> input_keys \<Rightarrow> real \<Rightarrow> camera \<times> playerSphere \<Rightarrow> camera \<times> playerSphere" where
  "inputUpdate cfg keys delta cp =
     (let cam = fst cp; player = snd cp;
          moveSpeed = BALL_SPEED cfg;
          rotationSpeed = 1.5;
          cameraAngle = cam_rotationAngle cam;
          velocity = p_velocity player;
          existingVelocityX = X velocity;
          existingVelocityZ = Z velocity;
          cam1 = (if k_left keys then rotateCamera cam (rotationSpeed * delta) else cam);
          cam2 = (if k_right keys then rotateCamera cam1 (- rotationSpeed * delta) else cam1);
          forward = normalize (Vector3 (- sin cameraAngle) 0 (- cos cameraAngle));
          vx0 = 0; vz0 = 0;
          vx1 = (if k_up keys then vx0 + X forward * moveSpeed * delta else vx0);
          vz1 = (if k_up keys then vz0 + Z forward * moveSpeed * delta else vz0);
          vx2 = (if k_down keys then vx1 - X forward * moveSpeed * delta else vx1);
          vz2 = (if k_down keys then vz1 - Z forward * moveSpeed * delta else vz1);
          restore = (\<bar>existingVelocityX\<bar> > 0.01 \<or> \<bar>existingVelocityZ\<bar> > 0.01);
          vx3 = (if restore then vx2 + existingVelocityX * 0.8 else vx2);
          vz3 = (if restore then vz2 + existingVelocityZ * 0.8 else vz2);
          radius = p_radius player;
          p = p_position player;
          above = (Y p > radius);
          vy = (if above then Y velocity - 9.8 * delta else 0);
          py = (if above then Y p else radius)
      in (cam2, player\<lparr>p_position := Vector3 (X p + vx3) (py + vy) (Z p + vz3),
                         p_velocity := Vector3 vx3 vy vz3\<rparr>))"

section \<open>The game controller\<close>

text \<open>
  Of the two revisions of \<^verbatim>\<open>GameController\<close> in the sources, the later one is modelled:
  it applies the physics step in the game loop and counts the absorbed items. The
  absorption code of the two revisions is the same.
\<close>

record game =
  sphereSize :: real
  player :: playerSphere
  objects :: "mesh list"
  cameraController :: camera
  itemsAbsorbed :: nat
  seed :: nat

text \<open>The volume of an absorbed body, by the class of its geometry.\<close>

definition objectVolume :: "mesh \<Rightarrow> real" where
  "objectVolume object =
     (case geometry object of
        SphereGeometry _ \<Rightarrow> (ud_size object) ^ 3 * pi * (4 / 3)
      | BoxGeometry _ _ _ \<Rightarrow> (ud_size object) ^ 3
      | ConeGeometry _ _ \<Rightarrow> (1 / 3) * pi * (ud_size object)\<^sup>2 * (ud_size object * 2)
      | CylinderGeometry _ _ _ \<Rightarrow> pi * (ud_size object)\<^sup>2 * (ud_size object * 2)
      | OtherGeometry \<Rightarrow> (ud_size object) ^ 3 * 0.5)"

definition growSphere :: "game_config \<Rightarrow> game \<Rightarrow> real \<Rightarrow> game" where
  "growSphere cfg g newSize =
     (if newSize \<le> 0 then g
      else
        (let p = p_position (player g);
             p1 = (if Y p < newSize then Vector3 (X p) newSize (Z p) else p)
         in g\<lparr>sphereSize := newSize,
              player := \<lparr>p_position = p1, p_velocity = p_velocity (player g),
                         p_radius = newSize\<rparr>,
              cameraController := updateCameraForSize cfg (cameraController g) newSize\<rparr>))"

text \<open>The body of the \<^verbatim>\<open>collisions.forEach\<close> of \<^verbatim>\<open>_handleCollisions\<close>: one absorption.\<close>

definition handleCollision :: "game_config \<Rightarrow> game \<Rightarrow> mesh \<Rightarrow> game" where
  "handleCollision cfg g object =
     (let v0 = objectVolume object;
          v = (if v0 \<le> 0 then 1.0 else v0);
          currentVolume = (sphereSize g) ^ 3 * pi * (4 / 3);
          newVolume = currentVolume + v
      in case Math_pow_third ((3 * newVolume) / (4 * pi)) of
           None \<Rightarrow> g
         | Some newSize \<Rightarrow>
             if newSize \<le> 0 then g
             else
               (let g1 = growSphere cfg g newSize;
                    g2 = g1\<lparr>objects := removeObject (objects g1) object\<rparr>
                in g2\<lparr>itemsAbsorbed := itemsAbsorbed g2 + 1\<rparr>))"

text \<open>
  \<^verbatim>\<open>_handleCollisions\<close>: the absorptions, then the population maintenance. \<open>lookup\<close> is
  the scene's \<^verbatim>\<open>getObjectByName('playerSphere')\<close> for the player mesh in the scene.
\<close>

definition handleCollisions ::
    "game_config \<Rightarrow> (playerSphere \<Rightarrow> vec3 option) \<Rightarrow> (nat \<Rightarrow> real) \<Rightarrow> game \<Rightarrow> mesh list
      \<Rightarrow> error + game" where
  "handleCollisions cfg lookup rnd g cs =
     (let g1 = foldl (handleCollision cfg) g cs
      in case checkAndSpawnObjects cfg (lookup (player g1)) (objects g1) (sphereSize g1)
                rnd (seed g1) of
           Inl e \<Rightarrow> Inl e
         | Inr (objs, i) \<Rightarrow> Inr (g1\<lparr>objects := objs, seed := i\<rparr>))"

text \<open>One pass of \<^verbatim>\<open>_gameLoop\<close> while the game is running.\<close>

definition gameLoop ::
    "game_config \<Rightarrow> (playerSphere \<Rightarrow> vec3 option) \<Rightarrow> (nat \<Rightarrow> real) \<Rightarrow> input_keys \<Rightarrow> real \<Rightarrow> game
      \<Rightarrow> error + game" where
  "gameLoop cfg lookup rnd keys delta g =
     (let (cam1, p1) = inputUpdate cfg keys delta (cameraController g, player g);
          (cs, p2) = checkCollisions p1 (objects g) (sphereSize g);
          p3 = applyPhysics p2 delta;
          g1 = g\<lparr>player := p3, cameraController := cam1\<rparr>
      in case (if cs \<noteq> [] then handleCollisions cfg lookup rnd g1 cs else Inr g1) of
           Inl e \<Rightarrow> Inl e
         | Inr g2 \<Rightarrow>
             Inr (g2\<lparr>cameraController :=
                       updateCameraForSize cfg (cameraController g2) (p_radius (player g2))\<rparr>))"

text \<open>A session: the passes for a list of frames (keys and time step); an
  uncaught exception stops it.\<close>

fun runSession ::
    "game_config \<Rightarrow> (playerSphere \<Rightarrow> vec3 option) \<Rightarrow> (nat \<Rightarrow> real) \<Rightarrow> (input_keys \<times> real) list
      \<Rightarrow> game \<Rightarrow> error + game" where
  "runSession cfg lookup rnd [] g = Inr g"
| "runSession cfg lookup rnd ((keys, delta) # frames) g =
     (case gameLoop cfg lookup rnd keys delta g of
        Inl e \<Rightarrow> Inl e
      | Inr g' \<Rightarrow> runSession cfg lookup rnd frames g')"

section \<open>The scene\<close>

text \<open>
  The object manager shares the scene with the game controller and reads the player's
  position from it by name. A scene object is modelled by its name and its position.
  The library gives every new object the empty name, and no code of the game sets a
  name: neither \<^verbatim>\<open>_createPlayerSphere\<close> and \<^verbatim>\<open>growSphere\<close> for the player's mesh nor
  \<^verbatim>\<open>_createObject\<close> for the bodies (the camera, the lights and the ground, which the
  scene holds as well, are unnamed too). \<^verbatim>\<open>getObjectByName\<close> returns the first object
  with the given name.
\<close>

record scene_object =
  so_name :: string
  so_position :: vec3

definition getObjectByName :: "scene_object list \<Rightarrow> string \<Rightarrow> scene_object option" where
  "getObjectByName scene n = find (\<lambda>obj. so_name obj = n) scene"

text \<open>\<^verbatim>\<open>_createPlayerSphere\<close>: the player's mesh, above the ground, at rest.\<close>

definition createPlayerSphere :: "real \<Rightarrow> playerSphere" where
  "createPlayerSphere s =
     \<lparr>p_position = Vector3 0 (s + 0.5) 0, p_velocity = Vector3 0 0 0, p_radius = s\<rparr>"

definition playerSceneObject :: "playerSphere \<Rightarrow> scene_object" where
  "playerSceneObject p = \<lparr>so_name = [], so_position = p_position p\<rparr>"

definition meshSceneObject :: "mesh \<Rightarrow> scene_object" where
  "meshSceneObject m = \<lparr>so_name = [], so_position = position m\<rparr>"

definition gameScene :: "game \<Rightarrow> scene_object list" where
  "gameScene g = playerSceneObject (player g) # map meshSceneObject (objects g)"

text \<open>The start of \<^verbatim>\<open>_findNonOverlappingPosition\<close>: the position of the scene object
  named \<^verbatim>\<open>playerSphere\<close>, or null.\<close>

definition scenePlayerPosition :: "scene_object list \<Rightarrow> vec3 option" where
  "scenePlayerPosition scene =
     (case getObjectByName scene ''playerSphere'' of
        None \<Rightarrow> None
      | Some obj \<Rightarrow> Some (so_position obj))"

section \<open>Predicates of the collision scan and the cull step\<close>

text \<open>The two tests of the scan on a body that is not a barrier.\<close>

definition absorbable :: "playerSphere \<Rightarrow> real \<Rightarrow> mesh \<Rightarrow> bool" where
  "absorbable pl r object \<longleftrightarrow>
     \<not> ud_isBarrier object
     \<and> distanceTo (p_position pl) (position object)
          < r + or_number (ud_collisionRadius object) (ud_size object)
     \<and> ud_size object < r"

definition blocking :: "playerSphere \<Rightarrow> real \<Rightarrow> mesh \<Rightarrow> bool" where
  "blocking pl r object \<longleftrightarrow>
     \<not> ud_isBarrier object
     \<and> distanceTo (p_position pl) (position object)
          < r + or_number (ud_collisionRadius object) (ud_size object)
     \<and> \<not> ud_size object < r"

text \<open>The test under which the cull step marks a body.\<close>

definition cullable :: "game_config \<Rightarrow> real \<Rightarrow> mesh \<Rightarrow> bool" where
  "cullable cfg playerSize object \<longleftrightarrow>
     ud_size object < playerSize * 0.1 \<and> ud_size object < 5
     \<and> lengthSq (position object) > PLAYABLE_AREA cfg * PLAYABLE_AREA cfg"

section \<open>One absorption\<close>

text \<open>The volume that one absorption adds (the computed volume, or the default 1.0
  that replaces a computed volume that is not positive), and the argument of the cube
  root that gives the new radius.\<close>

definition absorbedVolume :: "mesh \<Rightarrow> real" where
  "absorbedVolume object = (if objectVolume object \<le> 0 then 1.0 else objectVolume object)"

definition newRadiusCubed :: "game \<Rightarrow> mesh \<Rightarrow> real" where
  "newRadiusCubed g object =
     (3 * ((sphereSize g) ^ 3 * pi * (4 / 3) + absorbedVolume object)) / (4 * pi)"

section \<open>Camera framing\<close>

text \<open>The factor by which \<^verbatim>\<open>updateCameraForSize\<close> multiplies the sphere size, for the
  field of view (in degrees) that the camera has when the update starts.\<close>

definition distancePerSize :: "game_config \<Rightarrow> real \<Rightarrow> real" where
  "distancePerSize cfg fov =
     1 / (or_number (Some (MAX_SCREEN_PERCENTAGE cfg)) 30 / 100) / tan (fov * pi / 180 / 2)
       * or_number (Some (CAMERA_ZOOM_RATE cfg)) 1.5 * max 1 (PLAYABLE_AREA cfg / 400)"

section \<open>Placement\<close>

text \<open>The candidate that attempt \<open>k\<close> (counted from 0) draws when the counter of the
  random stream is \<open>i\<close> at the start, and the test that rejects a candidate: too close
  to the player, or overlapping an existing object.\<close>

definition candidatePosition :: "real \<Rightarrow> (nat \<Rightarrow> real) \<Rightarrow> nat \<Rightarrow> nat \<Rightarrow> vec3" where
  "candidatePosition maxCoord rnd i k =
     Vector3 (randomInRange (- maxCoord) maxCoord (rnd (i + 2 * k))) 0
             (randomInRange (- maxCoord) maxCoord (rnd (i + 2 * k + 1)))"

definition rejected :: "real \<Rightarrow> real \<Rightarrow> vec3 option \<Rightarrow> mesh list \<Rightarrow> vec3 \<Rightarrow> bool" where
  "rejected playerSize effR playerPosition objs pos \<longleftrightarrow>
     (case playerPosition of
        None \<Rightarrow> False
      | Some pp \<Rightarrow> planarDistance pos pp < playerSize + effR + 5)
     \<or> hasOverlap pos effR objs"

section \<open>Sample configurations and bodies\<close>

text \<open>The configuration of \<^verbatim>\<open>main.js\<close>, and the same with respawning switched off.\<close>

definition config0 :: game_config where
  "config0 = \<lparr>INITIAL_OBJECTS_COUNT = 1000, MAX_OBJECTS_COUNT = 1000, MAP_SIZE = 1000,
     PLAYABLE_AREA = 400, MAX_OBJECT_SIZE = 1, RESPAWN_OBJECTS = True,
     MAX_SCREEN_PERCENTAGE = 30, CAMERA_ZOOM_RATE = 1.5, BALL_SPEED = 10\<rparr>"

definition config_no_respawn :: game_config where
  "config_no_respawn = config0\<lparr>RESPAWN_OBJECTS := False\<rparr>"

definition tinyFar :: mesh where
  "tinyFar = createObject ''box'' 1 (Vector3 500 0 0) (Some 0xFF0000)"

definition bigFar :: mesh where
  "bigFar = createObject ''sphere'' 6 (Vector3 500 0 0) (Some 0x0000FF)"

definition barrier0 :: mesh where
  "barrier0 = \<lparr>position = Vector3 0 0 0, geometry = BoxGeometry 2 2 2, color = None,
      ud_type = ''box'', ud_size = 0.1, ud_collisionRadius = None, ud_isBarrier = True,
      matrixWorld = (\<lambda>v. v), matrixWorldInverse = (\<lambda>v. v)\<rparr>"

definition player0 :: playerSphere where
  "player0 = \<lparr>p_position = Vector3 0 0 0, p_velocity = Vector3 0 0 0, p_radius = 1\<rparr>"

text \<open>The scenario of the cube of size 2 (collision radius 1) at the origin and a player of
  radius 0.5 at distance 0.9: beside the cube, and straight above its centre.\<close>

definition cube2 :: mesh where
  "cube2 = \<lparr>position = Vector3 0 0 0, geometry = BoxGeometry 2 2 2, color = Some 0xFF0000,
      ud_type = ''box'', ud_size = 2, ud_collisionRadius = Some 1, ud_isBarrier = False,
      matrixWorld = (\<lambda>v. v), matrixWorldInverse = (\<lambda>v. v)\<rparr>"

definition playerBeside :: playerSphere where
  "playerBeside = \<lparr>p_position = Vector3 0.9 0 0, p_velocity = Vector3 0 0 0, p_radius = 0.5\<rparr>"

definition playerAbove :: playerSphere where
  "playerAbove = \<lparr>p_position = Vector3 0 0.9 0, p_velocity = Vector3 0 0 0, p_radius = 0.5\<rparr>"

text \<open>A player of radius 2 resting on top of the barrier box, and one beside it that
  moves into it.\<close>

definition playerTop :: playerSphere where
  "playerTop = \<lparr>p_position = Vector3 0 2 0, p_velocity = Vector3 0 0 0, p_radius = 2\<rparr>"

definition playerSide :: playerSphere where
  "playerSide = \<lparr>p_position = Vector3 2 0 0, p_velocity = Vector3 (- 1) 5 3, p_radius = 2\<rparr>"

text \<open>A game of a player of radius 1 and one small sphere; the same game with an
  invalid negative size; a box of size 0.\<close>

definition camera0 :: camera where
  "camera0 = \<lparr>cam_distance = 20, cam_height = 10, cam_fov = 75, cam_rotationAngle = 0\<rparr>"

definition smallSphere :: mesh where
  "smallSphere = createObject ''sphere'' 0.5 (Vector3 1 0 0) (Some 0xFFFF00)"

definition zeroBox :: mesh where
  "zeroBox = createObject ''box'' 0 (Vector3 1 0 0) (Some 0xFFFF00)"

definition game1 :: game where
  "game1 = \<lparr>sphereSize = 1,
             player = \<lparr>p_position = Vector3 0 1 0, p_velocity = Vector3 0 0 0, p_radius = 1\<rparr>,
             objects = [smallSphere], cameraController = camera0, itemsAbsorbed = 0, seed = 0\<rparr>"

definition gameNegative :: game where
  "gameNegative = game1\<lparr>sphereSize := - 1\<rparr>"

definition noKeys :: input_keys where
  "noKeys = \<lparr>k_up = False, k_down = False, k_left = False, k_right = False\<rparr>"

text \<open>The game as \<^verbatim>\<open>start\<close> has it when it spawns the initial objects: the player's
  mesh is created, the object list is empty. A random stream whose draws are all 1/2.\<close>

definition startGame :: "game_config \<Rightarrow> game" where
  "startGame cfg =
     \<lparr>sphereSize = 1, player = createPlayerSphere 1, objects = [],
      cameraController = updateCameraForSize cfg camera0 1, itemsAbsorbed = 0, seed = 0\<rparr>"

definition rndHalf :: "nat \<Rightarrow> real" where
  "rndHalf k = 1 / 2"

section \<open>The collision scan as three filters\<close>

lemma scan_collisions_foldl:
  "collisions (foldl (scanObject pl r) acc objs) = collisions acc @ filter (absorbable pl r) objs"
  by (induction objs arbitrary: acc) (simp_all add: scanObject_def absorbable_def Let_def)

lemma scan_larger_foldl:
  "map lc_object (largerCollisions (foldl (scanObject pl r) acc objs))
     = map lc_object (largerCollisions acc) @ filter (blocking pl r) objs"
  by (induction objs arbitrary: acc) (simp_all add: scanObject_def blocking_def Let_def)

lemma scan_barrier_foldl:
  "barrierCollisions (foldl (scanObject pl r) acc objs)
     = barrierCollisions acc
       @ filter (\<lambda>object. ud_isBarrier object \<and> checkBarrierCollision pl object r) objs"
  by (induction objs arbitrary: acc) (simp_all add: scanObject_def Let_def)

lemma scan_collisions: "collisions (scanObjects pl r objs) = filter (absorbable pl r) objs"
  by (simp add: scanObjects_def scan_collisions_foldl)

lemma scan_larger:
  "map lc_object (largerCollisions (scanObjects pl r objs)) = filter (blocking pl r) objs"
  by (simp add: scanObjects_def scan_larger_foldl)

lemma scan_barrier:
  "barrierCollisions (scanObjects pl r objs)
     = filter (\<lambda>object. ud_isBarrier object \<and> checkBarrierCollision pl object r) objs"
  by (simp add: scanObjects_def scan_barrier_foldl)

lemma checkCollisions_fst: "fst (checkCollisions pl objs r) = filter (absorbable pl r) objs"
  by (simp add: checkCollisions_def Let_def scan_collisions)

text \<open>
  C10. Whatever the body list, the player and the player's size, a body flagged as a
  barrier is not among the absorbable bodies that the collision scan returns, however
  small its size is.
\<close>

theorem barrier_never_absorbable:
  "ud_isBarrier b \<Longrightarrow> b \<notin> set (fst (checkCollisions pl objs r))"
  by (simp add: checkCollisions_fst absorbable_def)

theorem barrier_never_absorbable_witness:
  "ud_isBarrier barrier0 \<and> ud_size barrier0 < 1
   \<and> barrier0 \<notin> set (fst (checkCollisions player0 [barrier0] 1))"
  using barrier_never_absorbable [of barrier0 player0 "[barrier0]" 1]
  by (simp add: barrier0_def)

section \<open>The cull step\<close>

lemma cullMark_foldl:
  "foldl (cullMark (playerSize * 0.1) (PLAYABLE_AREA cfg * PLAYABLE_AREA cfg)) acc objs
     = acc @ filter (cullable cfg playerSize) objs"
  by (induction objs arbitrary: acc) (simp_all add: cullMark_def cullable_def Let_def)

lemma remove_marked:
  "\<forall>x \<in> set pre. \<not> P x \<Longrightarrow>
     foldl removeObject (pre @ xs) (filter P xs) = pre @ filter (\<lambda>x. \<not> P x) xs"
proof (induction xs arbitrary: pre)
  case Nil
  then show ?case by simp
next
  case (Cons x xs)
  show ?case
  proof (cases "P x")
    case True
    with Cons.prems have "x \<notin> set pre" by blast
    then have "remove1 x (pre @ x # xs) = pre @ xs"
      by (simp add: remove1_append)
    with True Cons.IH [OF Cons.prems] show ?thesis
      by (simp add: removeObject_def)
  next
    case False
    with Cons.prems have "\<forall>y \<in> set (pre @ [x]). \<not> P y" by simp
    from Cons.IH [OF this] False show ?thesis by simp
  qed
qed

lemma cullTinyObjects_filter:
  "cullTinyObjects cfg objs playerSize
     = filter (\<lambda>object. \<not> cullable cfg playerSize object) objs"
proof -
  have "foldl removeObject ([] @ objs) (filter (cullable cfg playerSize) objs)
          = [] @ filter (\<lambda>object. \<not> cullable cfg playerSize object) objs"
    by (rule remove_marked) simp
  then show ?thesis
    unfolding cullTinyObjects_def Let_def cullMark_foldl by simp
qed

text \<open>
  C6. The cull step removes a body only if its size is below a tenth of the player's
  size, below 5, and its squared distance from the origin exceeds the square of the
  playable area. Hence a body whose size is at least a tenth of the player's size, or
  at least 5, stays in the list (as often as it occurred), however far away it is.
\<close>

theorem cull_only_small_and_far:
  "(b \<in> set objs \<and> b \<notin> set (cullTinyObjects cfg objs playerSize)
      \<longrightarrow> ud_size b < playerSize * 0.1 \<and> ud_size b < 5
          \<and> lengthSq (position b) > PLAYABLE_AREA cfg * PLAYABLE_AREA cfg)
   \<and> (b \<in> set objs \<and> (ud_size b \<ge> playerSize * 0.1 \<or> ud_size b \<ge> 5)
      \<longrightarrow> b \<in> set (cullTinyObjects cfg objs playerSize)
          \<and> count_list (cullTinyObjects cfg objs playerSize) b = count_list objs b)"
proof -
  have "count_list (filter Q xs) b = count_list xs b" if "Q b" for Q and xs :: "mesh list"
    using that by (induction xs) auto
  then show ?thesis
    by (auto simp add: cullTinyObjects_filter cullable_def)
qed

theorem cull_only_small_and_far_witness:
  "bigFar \<in> set [tinyFar, bigFar] \<and> ud_size bigFar \<ge> 5
   \<and> bigFar \<in> set (cullTinyObjects config0 [tinyFar, bigFar] 100)
   \<and> tinyFar \<notin> set (cullTinyObjects config0 [tinyFar, bigFar] 100)
   \<and> ud_size tinyFar < 100 * 0.1 \<and> ud_size tinyFar < 5
   \<and> lengthSq (position tinyFar) > PLAYABLE_AREA config0 * PLAYABLE_AREA config0"
  using cull_only_small_and_far [of bigFar "[tinyFar, bigFar]" config0 100]
        cull_only_small_and_far [of tinyFar "[tinyFar, bigFar]" config0 100]
  by (simp add: cullTinyObjects_filter cullable_def config0_def tinyFar_def bigFar_def
        createObject_def Let_def lengthSq_def)

section \<open>Population maintenance with respawning switched off\<close>

text \<open>
  C9, as the code has it. With the respawn flag off, the population maintenance
  returns at once: it spawns nothing, culls nothing, and leaves the object list and
  the random stream as they were.
\<close>

theorem respawn_disabled_no_op:
  "\<not> RESPAWN_OBJECTS cfg \<Longrightarrow>
     checkAndSpawnObjects cfg playerPosition objs playerSize rnd i = Inr (objs, i)"
  by (simp add: checkAndSpawnObjects_def)

theorem respawn_disabled_no_op_witness:
  "\<not> RESPAWN_OBJECTS config_no_respawn \<and>
   checkAndSpawnObjects config_no_respawn None [tinyFar] 100 (\<lambda>k. 0) 0 = Inr ([tinyFar], 0)"
  using respawn_disabled_no_op [of config_no_respawn None "[tinyFar]" 100 "\<lambda>k. 0" 0]
  by (simp add: config_no_respawn_def config0_def)

text \<open>
  C9 as stated fails: with the flag off, a body that the cull step would remove is
  still in the list after the population maintenance.
\<close>

theorem respawn_disabled_skips_cull:
  "\<not> RESPAWN_OBJECTS config_no_respawn
   \<and> cullTinyObjects config_no_respawn [tinyFar] 100 = []
   \<and> checkAndSpawnObjects config_no_respawn None [tinyFar] 100 (\<lambda>k. 0) 0 = Inr ([tinyFar], 0)"
  by (simp add: checkAndSpawnObjects_def cullTinyObjects_filter cullable_def
        config_no_respawn_def config0_def tinyFar_def createObject_def Let_def lengthSq_def)

section \<open>Classification and response of the collision scan\<close>

lemma length_v_nonneg: "0 \<le> length_v v"
  by (simp add: length_v_def lengthSq_def)

lemma length_v_zero_iff: "length_v v = 0 \<longleftrightarrow> X v = 0 \<and> Y v = 0 \<and> Z v = 0"
proof -
  have "X v * X v + Y v * Y v + Z v * Z v = 0 \<longleftrightarrow> X v = 0 \<and> Y v = 0 \<and> Z v = 0"
    by (metis add_nonneg_eq_0_iff zero_le_square mult_eq_0_iff add_nonneg_nonneg mult_zero_left add.right_neutral)
  then show ?thesis
    by (simp add: length_v_def lengthSq_def)
qed

lemma normalize_X: "X (normalize v) = X v * (1 / (if length_v v = 0 then 1 else length_v v))"
  and normalize_Y: "Y (normalize v) = Y v * (1 / (if length_v v = 0 then 1 else length_v v))"
  and normalize_Z: "Z (normalize v) = Z v * (1 / (if length_v v = 0 then 1 else length_v v))"
  by (simp_all add: normalize_def multiplyScalar_def Let_def)

lemma handleLarger_velocity:
  assumes "r + lc_objectRadius c - lc_distance c > 0"
  shows "X (p_velocity (handleLargerObjectCollision r pl c))
           = X (p_velocity pl)
             + X (normalize (subVectors (p_position pl) (lc_objectPosition c)))
               * ((r + lc_objectRadius c - lc_distance c)
                  * (0.2 + ln (min (ud_size (lc_object c) / r) 10 + 1) * 0.1))"
    and "Z (p_velocity (handleLargerObjectCollision r pl c))
           = Z (p_velocity pl)
             + Z (normalize (subVectors (p_position pl) (lc_objectPosition c)))
               * ((r + lc_objectRadius c - lc_distance c)
                  * (0.2 + ln (min (ud_size (lc_object c) / r) 10 + 1) * 0.1))"
  using assms by (simp_all add: handleLargerObjectCollision_def Let_def)

lemma handleLarger_no_overlap:
  "\<not> r + lc_objectRadius c - lc_distance c > 0 \<Longrightarrow> handleLargerObjectCollision r pl c = pl"
  by (simp add: handleLargerObjectCollision_def Let_def)

lemma checkCollisions_single_blocking:
  "blocking pl r c \<Longrightarrow>
     checkCollisions pl [c] r
       = ([], handleLargerObjectCollision r pl
                \<lparr>lc_object = c, lc_distance = distanceTo (p_position pl) (position c),
                 lc_objectRadius = or_number (ud_collisionRadius c) (ud_size c),
                 lc_objectPosition = position c\<rparr>)"
  by (simp add: checkCollisions_def scanObjects_def scanObject_def blocking_def Let_def
        handleLargerObjectCollisions_def)

lemma scan_disjoint:
  "set (collisions (scanObjects pl r objs)) \<inter> lc_object ` set (largerCollisions (scanObjects pl r objs)) = {}"
  "set (collisions (scanObjects pl r objs)) \<inter> set (barrierCollisions (scanObjects pl r objs)) = {}"
  "lc_object ` set (largerCollisions (scanObjects pl r objs)) \<inter> set (barrierCollisions (scanObjects pl r objs)) = {}"
proof -
  have l: "lc_object ` set (largerCollisions (scanObjects pl r objs)) = set (filter (blocking pl r) objs)"
    using scan_larger [of pl r objs] by (metis set_map)
  show "set (collisions (scanObjects pl r objs)) \<inter> lc_object ` set (largerCollisions (scanObjects pl r objs)) = {}"
    unfolding l scan_collisions by (auto simp add: absorbable_def blocking_def)
  show "set (collisions (scanObjects pl r objs)) \<inter> set (barrierCollisions (scanObjects pl r objs)) = {}"
    unfolding scan_collisions scan_barrier by (auto simp add: absorbable_def)
  show "lc_object ` set (largerCollisions (scanObjects pl r objs)) \<inter> set (barrierCollisions (scanObjects pl r objs)) = {}"
    unfolding l scan_barrier by (auto simp add: blocking_def)
qed

lemma scan_classifies:
  assumes "object \<in> set objs" "\<not> ud_isBarrier object"
    "distanceTo (p_position pl) (position object)
       < r + or_number (ud_collisionRadius object) (ud_size object)"
  shows "object \<in> set (collisions (scanObjects pl r objs)) \<longleftrightarrow> ud_size object < r"
    and "object \<in> lc_object ` set (largerCollisions (scanObjects pl r objs)) \<longleftrightarrow> r \<le> ud_size object"
proof -
  have l: "lc_object ` set (largerCollisions (scanObjects pl r objs)) = set (filter (blocking pl r) objs)"
    using scan_larger [of pl r objs] by (metis set_map)
  show "object \<in> set (collisions (scanObjects pl r objs)) \<longleftrightarrow> ud_size object < r"
    using assms by (simp add: scan_collisions absorbable_def)
  show "object \<in> lc_object ` set (largerCollisions (scanObjects pl r objs)) \<longleftrightarrow> r \<le> ud_size object"
    unfolding l using assms by (auto simp add: blocking_def)
qed

lemma cube_push:
  assumes size: "ud_size cube = 2" and nb: "\<not> ud_isBarrier cube"
    and ov: "distanceTo (p_position pl) (position cube)
               < 1 / 2 + or_number (ud_collisionRadius cube) (ud_size cube)"
  shows "fst (checkCollisions pl [cube] (1 / 2)) = []"
    and "cube \<in> lc_object ` set (largerCollisions (scanObjects pl (1 / 2) [cube]))"
    and "X (p_position pl) \<noteq> X (position cube) \<or> Z (p_position pl) \<noteq> Z (position cube) \<Longrightarrow>
          \<exists>k>0. X (p_velocity (snd (checkCollisions pl [cube] (1 / 2))))
                    = X (p_velocity pl) + k * (X (p_position pl) - X (position cube))
               \<and> Z (p_velocity (snd (checkCollisions pl [cube] (1 / 2))))
                    = Z (p_velocity pl) + k * (Z (p_position pl) - Z (position cube))"
    and "X (p_position pl) = X (position cube) \<and> Z (p_position pl) = Z (position cube) \<Longrightarrow>
          X (p_velocity (snd (checkCollisions pl [cube] (1 / 2)))) = X (p_velocity pl)
          \<and> Z (p_velocity (snd (checkCollisions pl [cube] (1 / 2)))) = Z (p_velocity pl)"
proof -
  let ?d = "subVectors (p_position pl) (position cube)"
  let ?er = "or_number (ud_collisionRadius cube) (ud_size cube)"
  let ?ov = "1 / 2 + ?er - distanceTo (p_position pl) (position cube)"
  let ?c = "\<lparr>lc_object = cube, lc_distance = distanceTo (p_position pl) (position cube),
             lc_objectRadius = ?er, lc_objectPosition = position cube\<rparr>"
  have b: "blocking pl (1 / 2) cube"
    using size nb ov by (simp add: blocking_def)
  have cc: "checkCollisions pl [cube] (1 / 2) = ([], handleLargerObjectCollision (1 / 2) pl ?c)"
    using b by (rule checkCollisions_single_blocking)
  show "fst (checkCollisions pl [cube] (1 / 2)) = []" by (simp add: cc)
  show "cube \<in> lc_object ` set (largerCollisions (scanObjects pl (1 / 2) [cube]))"
    using scan_classifies(2) [of cube "[cube]" pl "1 / 2"] nb ov size by simp
  have pos: "?ov > 0" using ov by simp
  have ln5: "0 < ln (5::real)" by simp
  have "min (ud_size cube / (1 / 2)) 10 + 1 = (5::real)"
    by (simp add: size)
  then have f: "(0.2 + ln (min (ud_size cube / (1 / 2)) 10 + 1) * 0.1) > (0::real)"
    using ln5 by (simp add: add_pos_pos)
  let ?F = "?ov * (0.2 + ln (min (ud_size cube / (1 / 2)) 10 + 1) * 0.1)"
  have F: "?F > 0" using pos f by (rule mult_pos_pos)
  have vx: "X (p_velocity (snd (checkCollisions pl [cube] (1 / 2))))
              = X (p_velocity pl) + X (normalize ?d) * ?F"
    and vz: "Z (p_velocity (snd (checkCollisions pl [cube] (1 / 2))))
              = Z (p_velocity pl) + Z (normalize ?d) * ?F"
    using handleLarger_velocity [of "1 / 2" ?c pl] pos by (simp_all add: cc)
  {
    assume h: "X (p_position pl) \<noteq> X (position cube) \<or> Z (p_position pl) \<noteq> Z (position cube)"
    then have "length_v ?d \<noteq> 0"
      by (auto simp add: length_v_zero_iff subVectors_def)
    with length_v_nonneg [of ?d] have lp: "length_v ?d > 0" by simp
    let ?k = "?F / length_v ?d"
    have kp: "?k > 0" using F lp by (rule divide_pos_pos)
    have "X (normalize ?d) * ?F = ?k * (X (p_position pl) - X (position cube))"
      and "Z (normalize ?d) * ?F = ?k * (Z (p_position pl) - Z (position cube))"
      using lp by (simp_all add: normalize_X normalize_Z subVectors_def)
    with vx vz kp
    show "\<exists>k>0. X (p_velocity (snd (checkCollisions pl [cube] (1 / 2))))
                    = X (p_velocity pl) + k * (X (p_position pl) - X (position cube))
               \<and> Z (p_velocity (snd (checkCollisions pl [cube] (1 / 2))))
                    = Z (p_velocity pl) + k * (Z (p_position pl) - Z (position cube))"
      by metis
  }
  {
    assume "X (p_position pl) = X (position cube) \<and> Z (p_position pl) = Z (position cube)"
    then have "X (normalize ?d) = 0" "Z (normalize ?d) = 0"
      by (simp_all add: normalize_X normalize_Z subVectors_def)
    with vx vz
    show "X (p_velocity (snd (checkCollisions pl [cube] (1 / 2)))) = X (p_velocity pl)
          \<and> Z (p_velocity (snd (checkCollisions pl [cube] (1 / 2)))) = Z (p_velocity pl)"
      by simp
  }
qed

lemma sqrt_81_100: "sqrt (81 / 100) = 9 / 10"
  by (rule real_sqrt_unique) (simp_all add: power2_eq_square)

text \<open>
  C2, as the code has it. A body of the scanned list that is not a barrier and whose
  centre is closer to the player's than the player's radius plus the body's collision
  radius (\<^verbatim>\<open>collisionRadius || size\<close>) is put into the absorbable list exactly when its
  size is below the player's radius and into the blocking list exactly when its size
  is at least the player's radius; the absorbable, blocking and barrier lists are
  pairwise disjoint. A cube of size 2 that overlaps a player of radius 0.5 is
  blocking, and the response adds to the player's horizontal velocity a positive
  multiple of the horizontal offset from the cube's centre to the player's: the
  velocity delta points outward and is nonzero when the two centres are not on one
  vertical line, and it is zero when they are.
\<close>

theorem collision_classification:
  "(\<forall>object \<in> set objs.
       \<not> ud_isBarrier object
       \<and> distanceTo (p_position pl) (position object)
            < r + or_number (ud_collisionRadius object) (ud_size object)
       \<longrightarrow> (object \<in> set (collisions (scanObjects pl r objs)) \<longleftrightarrow> ud_size object < r)
         \<and> (object \<in> lc_object ` set (largerCollisions (scanObjects pl r objs))
              \<longleftrightarrow> r \<le> ud_size object))
   \<and> set (collisions (scanObjects pl r objs))
        \<inter> lc_object ` set (largerCollisions (scanObjects pl r objs)) = {}
   \<and> set (collisions (scanObjects pl r objs))
        \<inter> set (barrierCollisions (scanObjects pl r objs)) = {}
   \<and> lc_object ` set (largerCollisions (scanObjects pl r objs))
        \<inter> set (barrierCollisions (scanObjects pl r objs)) = {}
   \<and> (ud_size cube = 2 \<and> \<not> ud_isBarrier cube
        \<and> distanceTo (p_position q) (position cube)
             < 1 / 2 + or_number (ud_collisionRadius cube) (ud_size cube)
       \<longrightarrow> fst (checkCollisions q [cube] (1 / 2)) = []
         \<and> cube \<in> lc_object ` set (largerCollisions (scanObjects q (1 / 2) [cube]))
         \<and> (X (p_position q) \<noteq> X (position cube) \<or> Z (p_position q) \<noteq> Z (position cube)
            \<longrightarrow> (\<exists>k>0. X (p_velocity (snd (checkCollisions q [cube] (1 / 2))))
                          = X (p_velocity q) + k * (X (p_position q) - X (position cube))
                      \<and> Z (p_velocity (snd (checkCollisions q [cube] (1 / 2))))
                          = Z (p_velocity q) + k * (Z (p_position q) - Z (position cube))))
         \<and> (X (p_position q) = X (position cube) \<and> Z (p_position q) = Z (position cube)
            \<longrightarrow> X (p_velocity (snd (checkCollisions q [cube] (1 / 2)))) = X (p_velocity q)
              \<and> Z (p_velocity (snd (checkCollisions q [cube] (1 / 2)))) = Z (p_velocity q)))"
  using scan_classifies [of _ objs pl r] scan_disjoint [of pl r objs] cube_push [of cube q]
  by blast

lemma distance_9_10:
  "distanceTo (Vector3 (9 / 10) 0 0) (Vector3 0 0 0) = 9 / 10"
  "distanceTo (Vector3 0 (9 / 10) 0) (Vector3 0 0 0) = 9 / 10"
  by (simp_all add: distanceTo_def length_v_def lengthSq_def subVectors_def sqrt_81_100)

lemma cube2_simps:
  "\<not> ud_isBarrier cube2" "ud_size cube2 = 2" "ud_collisionRadius cube2 = Some 1"
  "position cube2 = Vector3 0 0 0"
  by (simp_all add: cube2_def)

theorem collision_classification_witness:
  "cube2 \<in> set [cube2] \<and> \<not> ud_isBarrier cube2 \<and> ud_size cube2 = 2
   \<and> distanceTo (p_position playerBeside) (position cube2)
        < 1 / 2 + or_number (ud_collisionRadius cube2) (ud_size cube2)
   \<and> cube2 \<notin> set (collisions (scanObjects playerBeside (1 / 2) [cube2]))
   \<and> cube2 \<in> lc_object ` set (largerCollisions (scanObjects playerBeside (1 / 2) [cube2]))
   \<and> (\<exists>k>0. X (p_velocity (snd (checkCollisions playerBeside [cube2] (1 / 2)))) = k * (9 / 10)
           \<and> Z (p_velocity (snd (checkCollisions playerBeside [cube2] (1 / 2)))) = 0)"
proof -
  have h: "p_position playerBeside = Vector3 (9 / 10) 0 0"
    "p_velocity playerBeside = Vector3 0 0 0"
    by (simp_all add: playerBeside_def)
  show ?thesis
    using collision_classification [of "[cube2]" playerBeside "1 / 2" cube2 playerBeside]
    by (simp add: h cube2_simps or_number_def distance_9_10)
qed

text \<open>
  C2 as stated fails where the player's centre is straight above the cube's: the
  cube overlaps and is blocking, yet the player's velocity stays as it was.
\<close>

theorem overlapping_cube_without_push:
  "ud_size cube2 = 2 \<and> \<not> ud_isBarrier cube2
   \<and> distanceTo (p_position playerAbove) (position cube2)
        < 1 / 2 + or_number (ud_collisionRadius cube2) (ud_size cube2)
   \<and> cube2 \<in> lc_object ` set (largerCollisions (scanObjects playerAbove (1 / 2) [cube2]))
   \<and> p_velocity (snd (checkCollisions playerAbove [cube2] (1 / 2))) = p_velocity playerAbove"
proof -
  have h: "p_position playerAbove = Vector3 0 (9 / 10) 0"
    "p_velocity playerAbove = Vector3 0 0 0"
    by (simp_all add: playerAbove_def)
  have b: "blocking playerAbove (1 / 2) cube2"
    by (simp add: blocking_def h cube2_simps or_number_def distance_9_10)
  have n: "normalize (subVectors (Vector3 0 (9 / 10) 0) (Vector3 0 0 0)) = Vector3 0 1 0"
    by (simp add: normalize_def subVectors_def length_v_def lengthSq_def multiplyScalar_def
          sqrt_81_100)
  have v: "p_velocity (snd (checkCollisions playerAbove [cube2] (1 / 2))) = Vector3 0 0 0"
    by (simp add: checkCollisions_single_blocking [OF b] handleLargerObjectCollision_def
          Let_def h cube2_simps or_number_def distance_9_10 n length_v_def lengthSq_def)
  have "cube2 \<in> lc_object ` set (largerCollisions (scanObjects playerAbove (1 / 2) [cube2]))"
    using scan_classifies(2) [of cube2 "[cube2]" playerAbove "1 / 2"]
    by (simp add: h cube2_simps or_number_def distance_9_10)
  then show ?thesis
    by (simp add: v h cube2_simps or_number_def distance_9_10)
qed

section \<open>The response to a barrier\<close>

text \<open>
  C7, as the code has it. For a barrier hit with positive penetration depth, the
  collision normal is the normalised vector from the closest point of the box to the
  player's centre (the centre as it was when the response began). The player's
  position moves in the ground plane only: x and z grow by the normal's x and z
  components times the penetration depth times 1.01, and y stays. Exactly when the
  horizontal velocity has a negative dot product with the normal, the horizontal
  velocity becomes its reflection \<open>v - 2 (v \<bullet> n) n\<close> scaled by 0.7 (the vertical
  velocity stays); otherwise the velocity is unchanged.
\<close>

theorem barrier_response:
  assumes "worldClosestPoint playerPos barrier = Some wcp"
    and "playerRadius - distanceTo playerPos wcp > 0"
  shows "let n = normalize (subVectors playerPos wcp);
             depth = playerRadius - distanceTo playerPos wcp;
             p = p_position pl;
             v = p_velocity pl;
             d = dot (Vector3 (X v) 0 (Z v)) n;
             pl' = handleBarrierCollision playerPos playerRadius pl barrier
         in p_position pl' = Vector3 (X p + X n * (depth * 1.01)) (Y p) (Z p + Z n * (depth * 1.01))
            \<and> (d < 0 \<longrightarrow> p_velocity pl'
                  = Vector3 ((X v - 2 * d * X n) * 0.7) (Y v) ((Z v - 2 * d * Z n) * 0.7))
            \<and> (\<not> d < 0 \<longrightarrow> p_velocity pl' = v)
            \<and> p_radius pl' = p_radius pl
            \<and> handleBarrierCollisions pl [barrier]
                = handleBarrierCollision (p_position pl) (p_radius pl) pl barrier"
  using assms
  by (simp add: handleBarrierCollision_def handleBarrierCollisions_def Let_def subVectors_def
        multiplyScalar_def mult.commute)

lemma barrier0_closest:
  "worldClosestPoint (Vector3 0 2 0) barrier0 = Some (Vector3 0 1 0)"
  "worldClosestPoint (Vector3 2 0 0) barrier0 = Some (Vector3 1 0 0)"
  by (simp_all add: worldClosestPoint_def barrier0_def Let_def)

lemma unit_distances:
  "distanceTo (Vector3 0 2 0) (Vector3 0 1 0) = 1"
  "distanceTo (Vector3 2 0 0) (Vector3 1 0 0) = 1"
  "normalize (subVectors (Vector3 0 2 0) (Vector3 0 1 0)) = Vector3 0 1 0"
  "normalize (subVectors (Vector3 2 0 0) (Vector3 1 0 0)) = Vector3 1 0 0"
  by (simp_all add: distanceTo_def normalize_def length_v_def lengthSq_def subVectors_def
        multiplyScalar_def)

theorem barrier_response_witness:
  "worldClosestPoint (p_position playerSide) barrier0 = Some (Vector3 1 0 0)
   \<and> p_radius playerSide - distanceTo (p_position playerSide) (Vector3 1 0 0) > 0
   \<and> p_position (handleBarrierCollisions playerSide [barrier0]) = Vector3 (2 + 1.01) 0 0
   \<and> p_velocity (handleBarrierCollisions playerSide [barrier0]) = Vector3 0.7 5 2.1"
proof -
  have h: "p_position playerSide = Vector3 2 0 0" "p_velocity playerSide = Vector3 (- 1) 5 3"
    "p_radius playerSide = 2"
    by (simp_all add: playerSide_def)
  show ?thesis
    using barrier_response [of "Vector3 2 0 0" barrier0 "Vector3 1 0 0" 2 playerSide]
    by (simp add: h barrier0_closest unit_distances Let_def dot_def)
qed

text \<open>
  C7 as stated fails where the normal is vertical: the player penetrates the top of
  the box by 1, the normal is \<open>(0, 1, 0)\<close>, and the response leaves the player where it
  is instead of pushing it out along the normal.
\<close>

theorem barrier_hit_from_above_not_pushed:
  "checkBarrierCollision playerTop barrier0 (p_radius playerTop)
   \<and> worldClosestPoint (p_position playerTop) barrier0 = Some (Vector3 0 1 0)
   \<and> p_radius playerTop - distanceTo (p_position playerTop) (Vector3 0 1 0) = 1
   \<and> normalize (subVectors (p_position playerTop) (Vector3 0 1 0)) = Vector3 0 1 0
   \<and> p_position (handleBarrierCollisions playerTop [barrier0]) = p_position playerTop"
proof -
  have h: "p_position playerTop = Vector3 0 2 0" "p_velocity playerTop = Vector3 0 0 0"
    "p_radius playerTop = 2"
    by (simp_all add: playerTop_def)
  show ?thesis
    by (simp add: h checkBarrierCollision_def handleBarrierCollisions_def
          handleBarrierCollision_def barrier0_closest unit_distances Let_def dot_def)
qed

section \<open>Growth by absorption\<close>

lemma cube_of_third_power: "0 \<le> x \<Longrightarrow> (x powr (1 / 3)) ^ 3 = (x::real)"
proof (cases "x = 0")
  case True
  then show ?thesis by simp
next
  case False
  assume "0 \<le> x"
  with False have "0 < x" by simp
  then have "(x powr (1 / 3)) ^ 3 = (x powr (1 / 3)) powr (real 3)"
    by (simp only: powr_realpow powr_gt_zero)
  also have "\<dots> = x powr 1" by (simp add: powr_powr)
  also have "\<dots> = x" using \<open>0 < x\<close> by simp
  finally show ?thesis .
qed

lemma third_power_of_cube: "0 \<le> r \<Longrightarrow> (r ^ 3) powr (1 / 3) = (r::real)"
proof (cases "r = 0")
  case True
  then show ?thesis by simp
next
  case False
  assume "0 \<le> r"
  with False have "0 < r" by simp
  then have "(r ^ 3) powr (1 / 3) = (r powr (real 3)) powr (1 / 3)"
    by (simp only: powr_realpow)
  also have "\<dots> = r powr 1" by (simp add: powr_powr)
  also have "\<dots> = r" using \<open>0 < r\<close> by simp
  finally show ?thesis .
qed

lemma absorbedVolume_pos: "0 < absorbedVolume object"
  by (simp add: absorbedVolume_def)

lemma newRadiusCubed_eq:
  "newRadiusCubed g object = (sphereSize g) ^ 3 + 3 * absorbedVolume object / (4 * pi)"
  by (simp add: newRadiusCubed_def field_simps)

lemma newRadiusCubed_gt: "(sphereSize g) ^ 3 < newRadiusCubed g object"
  using absorbedVolume_pos [of object] by (simp add: newRadiusCubed_eq)

lemma handleCollision_alt:
  "handleCollision cfg g object =
     (case Math_pow_third (newRadiusCubed g object) of
        None \<Rightarrow> g
      | Some newSize \<Rightarrow>
          if newSize \<le> 0 then g
          else (growSphere cfg g newSize)
                 \<lparr>objects := removeObject (objects (growSphere cfg g newSize)) object,
                  itemsAbsorbed := itemsAbsorbed (growSphere cfg g newSize) + 1\<rparr>)"
  unfolding handleCollision_def Let_def newRadiusCubed_def absorbedVolume_def
  by (simp split: option.split)

lemma handleCollision_skip:
  "newRadiusCubed g object \<le> 0 \<Longrightarrow> handleCollision cfg g object = g"
  by (cases "newRadiusCubed g object = 0")
     (simp_all add: handleCollision_alt Math_pow_third_def)

lemma growSphere_fields:
  "0 < newSize \<Longrightarrow> sphereSize (growSphere cfg g newSize) = newSize"
  "0 < newSize \<Longrightarrow> p_radius (player (growSphere cfg g newSize)) = newSize"
  "objects (growSphere cfg g newSize) = objects g"
  "itemsAbsorbed (growSphere cfg g newSize) = itemsAbsorbed g"
  "seed (growSphere cfg g newSize) = seed g"
  by (simp_all add: growSphere_def Let_def)

lemma handleCollision_grow:
  assumes "0 < newRadiusCubed g object"
  shows "sphereSize (handleCollision cfg g object) = newRadiusCubed g object powr (1 / 3)"
    and "p_radius (player (handleCollision cfg g object)) = newRadiusCubed g object powr (1 / 3)"
    and "itemsAbsorbed (handleCollision cfg g object) = itemsAbsorbed g + 1"
    and "objects (handleCollision cfg g object) = removeObject (objects g) object"
proof -
  have p: "0 < newRadiusCubed g object powr (1 / 3)"
    using assms by simp
  have h: "handleCollision cfg g object
             = (growSphere cfg g (newRadiusCubed g object powr (1 / 3)))
                 \<lparr>objects := removeObject
                    (objects (growSphere cfg g (newRadiusCubed g object powr (1 / 3)))) object,
                  itemsAbsorbed :=
                    itemsAbsorbed (growSphere cfg g (newRadiusCubed g object powr (1 / 3))) + 1\<rparr>"
    using assms p by (simp add: handleCollision_alt Math_pow_third_def)
  show "sphereSize (handleCollision cfg g object) = newRadiusCubed g object powr (1 / 3)"
    unfolding h using p by (simp add: growSphere_fields)
  show "p_radius (player (handleCollision cfg g object)) = newRadiusCubed g object powr (1 / 3)"
    unfolding h using p by (simp add: growSphere_fields)
  show "itemsAbsorbed (handleCollision cfg g object) = itemsAbsorbed g + 1"
    unfolding h by (simp add: growSphere_fields)
  show "objects (handleCollision cfg g object) = removeObject (objects g) object"
    unfolding h by (simp add: growSphere_fields)
qed

lemma handleCollision_radius_mono:
  "sphereSize g \<le> sphereSize (handleCollision cfg g object)"
  "handleCollision cfg g object \<noteq> g \<Longrightarrow> sphereSize g < sphereSize (handleCollision cfg g object)"
proof -
  have strict: "sphereSize g < sphereSize (handleCollision cfg g object)"
    if pos: "0 < newRadiusCubed g object"
  proof (cases "0 \<le> sphereSize g")
    case True
    have "(sphereSize g ^ 3) powr (1 / 3) < newRadiusCubed g object powr (1 / 3)"
      using newRadiusCubed_gt [of g object] True by (intro powr_less_mono2) simp_all
    then have "sphereSize g < newRadiusCubed g object powr (1 / 3)"
      using True by (simp only: third_power_of_cube)
    then show ?thesis
      using pos by (simp only: handleCollision_grow(1))
  next
    case False
    have "0 < newRadiusCubed g object powr (1 / 3)" using pos by simp
    with False have "sphereSize g < newRadiusCubed g object powr (1 / 3)" by linarith
    then show ?thesis
      using pos by (simp only: handleCollision_grow(1))
  qed
  show "sphereSize g \<le> sphereSize (handleCollision cfg g object)"
  proof (cases "0 < newRadiusCubed g object")
    case True
    then show ?thesis using strict by simp
  next
    case False
    then show ?thesis by (simp add: handleCollision_skip)
  qed
  show "sphereSize g < sphereSize (handleCollision cfg g object)"
    if "handleCollision cfg g object \<noteq> g"
  proof (cases "0 < newRadiusCubed g object")
    case True
    then show ?thesis using strict by simp
  next
    case False
    then show ?thesis using that by (simp add: handleCollision_skip)
  qed
qed

lemma objectVolume_pos: "0 < ud_size object \<Longrightarrow> 0 < objectVolume object"
  by (cases "geometry object") (simp_all add: objectVolume_def)

lemma handleCollision_volume:
  assumes "0 \<le> sphereSize g" "0 < ud_size object"
  shows "calculateSphereVolume (sphereSize (handleCollision cfg g object))
           = calculateSphereVolume (sphereSize g) + objectVolume object"
    and "0 < sphereSize (handleCollision cfg g object)"
    and "sphereSize (handleCollision cfg g object)
           = ((3 * (calculateSphereVolume (sphereSize g) + objectVolume object)) / (4 * pi))
               powr (1 / 3)"
proof -
  have v: "absorbedVolume object = objectVolume object"
    using objectVolume_pos [OF assms(2)] by (simp add: absorbedVolume_def)
  have "0 \<le> sphereSize g ^ 3" using assms(1) by simp
  then have pos: "0 < newRadiusCubed g object"
    using newRadiusCubed_gt [of g object] by linarith
  have s: "sphereSize (handleCollision cfg g object) = newRadiusCubed g object powr (1 / 3)"
    using pos by (rule handleCollision_grow(1))
  show "0 < sphereSize (handleCollision cfg g object)"
    using pos by (simp add: s)
  have "sphereSize (handleCollision cfg g object) ^ 3 = newRadiusCubed g object"
    using pos by (simp add: s cube_of_third_power)
  then show "calculateSphereVolume (sphereSize (handleCollision cfg g object))
           = calculateSphereVolume (sphereSize g) + objectVolume object"
    by (simp add: calculateSphereVolume_def newRadiusCubed_eq v field_simps)
  show "sphereSize (handleCollision cfg g object)
           = ((3 * (calculateSphereVolume (sphereSize g) + objectVolume object)) / (4 * pi))
               powr (1 / 3)"
    by (simp add: s newRadiusCubed_def v calculateSphereVolume_def mult.commute)
qed

lemma absorb_all_volume:
  "0 \<le> sphereSize g \<Longrightarrow> \<forall>b \<in> set bodies. 0 < ud_size b \<Longrightarrow>
     calculateSphereVolume (sphereSize (foldl (handleCollision cfg) g bodies))
       = calculateSphereVolume (sphereSize g) + (\<Sum>b\<leftarrow>bodies. objectVolume b)"
proof (induction bodies arbitrary: g)
  case Nil
  then show ?case by simp
next
  case (Cons b bodies)
  have b: "0 < ud_size b" using Cons.prems(2) by simp
  have "0 \<le> sphereSize (handleCollision cfg g b)"
    using handleCollision_volume(2) [OF Cons.prems(1) b, of cfg] by simp
  from Cons.IH [OF this] Cons.prems(2)
  show ?case
    by (simp add: handleCollision_volume(1) [OF Cons.prems(1) b])
qed

lemma calculateNewRadius_eq:
  assumes "0 \<le> r" "0 \<le> v"
  shows "calculateNewRadius r v = Some (((3 * (calculateSphereVolume r + v)) / (4 * pi)) powr (1 / 3))"
proof -
  have "0 \<le> calculateSphereVolume r + v"
    using assms by (simp add: calculateSphereVolume_def)
  then have "0 \<le> (3 * (calculateSphereVolume r + v)) / (4 * pi)"
    by simp
  then show ?thesis
    by (simp add: calculateNewRadius_def Let_def Math_pow_third_def)
qed

text \<open>
  C1. The volume of an absorbed body follows the formula of its shape (sphere
  \<open>(4/3) \<pi> s\<^sup>3\<close>, box \<open>s\<^sup>3\<close>, cone \<open>(1/3) \<pi> s\<^sup>2 (2 s)\<close>, cylinder \<open>\<pi> s\<^sup>2 (2 s)\<close>, any other
  shape \<open>0.5 s\<^sup>3\<close>, with \<open>s\<close> the size of the body). For a player of positive radius
  and a body of positive size the new radius is
  \<open>((3 (playerVolume + addedVolume)) / (4 \<pi>))\<close> to the power 1/3, where the player's
  volume is \<open>(4/3) \<pi>\<close> times the cube of the old radius; this is also what
  \<^verbatim>\<open>calculateNewRadius\<close> returns. After any sequence of absorptions of bodies of
  positive size the player's volume is the initial volume plus the sum of the volumes
  of the absorbed bodies.
\<close>

theorem volume_conservation:
  "(geometry b = SphereGeometry a1 \<longrightarrow> objectVolume b = (4 / 3) * pi * (ud_size b) ^ 3)
   \<and> (geometry b = BoxGeometry w h d \<longrightarrow> objectVolume b = (ud_size b) ^ 3)
   \<and> (geometry b = ConeGeometry a2 a3
        \<longrightarrow> objectVolume b = (1 / 3) * pi * (ud_size b)\<^sup>2 * (2 * ud_size b))
   \<and> (geometry b = CylinderGeometry a4 a5 a6
        \<longrightarrow> objectVolume b = pi * (ud_size b)\<^sup>2 * (2 * ud_size b))
   \<and> (geometry b = OtherGeometry \<longrightarrow> objectVolume b = 0.5 * (ud_size b) ^ 3)
   \<and> calculateSphereVolume (sphereSize g) = (4 / 3) * pi * (sphereSize g) ^ 3
   \<and> (0 < sphereSize g \<and> 0 < ud_size b
        \<longrightarrow> sphereSize (handleCollision cfg g b)
              = ((3 * (calculateSphereVolume (sphereSize g) + objectVolume b)) / (4 * pi))
                  powr (1 / 3)
          \<and> calculateNewRadius (sphereSize g) (objectVolume b)
              = Some (sphereSize (handleCollision cfg g b)))
   \<and> (0 < sphereSize g \<and> (\<forall>c \<in> set bodies. 0 < ud_size c)
        \<longrightarrow> calculateSphereVolume (sphereSize (foldl (handleCollision cfg) g bodies))
              = calculateSphereVolume (sphereSize g) + (\<Sum>c\<leftarrow>bodies. objectVolume c))"
proof -
  have shapes:
    "geometry b = SphereGeometry a1 \<longrightarrow> objectVolume b = (4 / 3) * pi * (ud_size b) ^ 3"
    "geometry b = BoxGeometry w h d \<longrightarrow> objectVolume b = (ud_size b) ^ 3"
    "geometry b = ConeGeometry a2 a3
        \<longrightarrow> objectVolume b = (1 / 3) * pi * (ud_size b)\<^sup>2 * (2 * ud_size b)"
    "geometry b = CylinderGeometry a4 a5 a6
        \<longrightarrow> objectVolume b = pi * (ud_size b)\<^sup>2 * (2 * ud_size b)"
    "geometry b = OtherGeometry \<longrightarrow> objectVolume b = 0.5 * (ud_size b) ^ 3"
    by (simp_all add: objectVolume_def)
  have one: "sphereSize (handleCollision cfg g b)
              = ((3 * (calculateSphereVolume (sphereSize g) + objectVolume b)) / (4 * pi))
                  powr (1 / 3)
          \<and> calculateNewRadius (sphereSize g) (objectVolume b)
              = Some (sphereSize (handleCollision cfg g b))"
    if "0 < sphereSize g" "0 < ud_size b"
  proof -
    have r: "0 \<le> sphereSize g" using that(1) by simp
    have v: "0 \<le> objectVolume b" using objectVolume_pos [OF that(2)] by simp
    show ?thesis
      using handleCollision_volume(3) [OF r that(2), of cfg] calculateNewRadius_eq [OF r v]
      by simp
  qed
  have many: "calculateSphereVolume (sphereSize (foldl (handleCollision cfg) g bodies))
              = calculateSphereVolume (sphereSize g) + (\<Sum>c\<leftarrow>bodies. objectVolume c)"
    if "0 < sphereSize g" "\<forall>c \<in> set bodies. 0 < ud_size c"
    using that by (intro absorb_all_volume) simp_all
  show ?thesis
    using shapes one many by (simp add: calculateSphereVolume_def)
qed

lemma smallSphere_simps:
  "geometry smallSphere = SphereGeometry (1 / 2)" "ud_size smallSphere = 1 / 2"
  by (simp_all add: smallSphere_def createObject_def Let_def)

theorem volume_conservation_witness:
  "0 < sphereSize game1 \<and> 0 < ud_size smallSphere
   \<and> geometry smallSphere = SphereGeometry (1 / 2)
   \<and> objectVolume smallSphere = (4 / 3) * pi * (ud_size smallSphere) ^ 3
   \<and> calculateSphereVolume (sphereSize (foldl (handleCollision config0) game1 [smallSphere]))
        = calculateSphereVolume (sphereSize game1) + (\<Sum>c\<leftarrow>[smallSphere]. objectVolume c)
   \<and> sphereSize (handleCollision config0 game1 smallSphere)
        = ((3 * (calculateSphereVolume (sphereSize game1) + objectVolume smallSphere))
            / (4 * pi)) powr (1 / 3)"
proof -
  have g: "0 < sphereSize game1" by (simp add: game1_def)
  have b: "0 < ud_size smallSphere" "\<forall>c \<in> set [smallSphere]. 0 < ud_size c"
    "geometry smallSphere = SphereGeometry (1 / 2)"
    by (simp_all add: smallSphere_simps)
  show ?thesis
    using volume_conservation [of smallSphere "1 / 2" 0 0 0 0 0 0 0 0 game1 config0 "[smallSphere]"]
      g b
    by blast
qed

lemma pow_third_invalid_iff:
  "(Math_pow_third x = None \<or> (\<exists>ns. Math_pow_third x = Some ns \<and> ns \<le> 0)) \<longleftrightarrow> x \<le> 0"
proof (cases "x < 0")
  case True
  then show ?thesis by (simp add: Math_pow_third_def)
next
  case False
  then have "x powr (1 / 3) \<le> 0 \<longleftrightarrow> x = 0"
    by (cases "x = 0") (simp_all add: not_le)
  with False show ?thesis by (auto simp add: Math_pow_third_def)
qed

text \<open>
  C3, as the code has it. If the new radius computed for one absorption is NaN or not
  positive, that absorption is skipped: the whole game state (the player's radius,
  position and velocity included) is unchanged, and the remaining absorptions of the
  pass are processed as if the body had not been there. If the volume computed for
  the body is not positive, the absorption is not skipped: the volume is replaced by
  the default 1.0, the player grows by it, and the body is removed and counted.
\<close>

theorem invalid_radius_skips_absorption:
  "(Math_pow_third (newRadiusCubed g b) = None
      \<or> (\<exists>ns. Math_pow_third (newRadiusCubed g b) = Some ns \<and> ns \<le> 0)
     \<longrightarrow> handleCollision cfg g b = g
       \<and> foldl (handleCollision cfg) g (b # rest) = foldl (handleCollision cfg) g rest)
   \<and> (objectVolume b \<le> 0 \<and> 0 \<le> sphereSize g
     \<longrightarrow> sphereSize (handleCollision cfg g b)
           = ((3 * (calculateSphereVolume (sphereSize g) + 1)) / (4 * pi)) powr (1 / 3)
       \<and> sphereSize g < sphereSize (handleCollision cfg g b)
       \<and> p_radius (player (handleCollision cfg g b)) = sphereSize (handleCollision cfg g b)
       \<and> itemsAbsorbed (handleCollision cfg g b) = itemsAbsorbed g + 1
       \<and> objects (handleCollision cfg g b) = removeObject (objects g) b)"
proof -
  have skip: "handleCollision cfg g b = g
       \<and> foldl (handleCollision cfg) g (b # rest) = foldl (handleCollision cfg) g rest"
    if "Math_pow_third (newRadiusCubed g b) = None
      \<or> (\<exists>ns. Math_pow_third (newRadiusCubed g b) = Some ns \<and> ns \<le> 0)"
  proof -
    from that have "newRadiusCubed g b \<le> 0" by (simp only: pow_third_invalid_iff)
    then have "handleCollision cfg g b = g" by (rule handleCollision_skip)
    then show ?thesis by simp
  qed
  have dflt: "sphereSize (handleCollision cfg g b)
           = ((3 * (calculateSphereVolume (sphereSize g) + 1)) / (4 * pi)) powr (1 / 3)
       \<and> sphereSize g < sphereSize (handleCollision cfg g b)
       \<and> p_radius (player (handleCollision cfg g b)) = sphereSize (handleCollision cfg g b)
       \<and> itemsAbsorbed (handleCollision cfg g b) = itemsAbsorbed g + 1
       \<and> objects (handleCollision cfg g b) = removeObject (objects g) b"
    if "objectVolume b \<le> 0" "0 \<le> sphereSize g"
  proof -
    have "0 \<le> sphereSize g ^ 3" using that(2) by simp
    then have pos: "0 < newRadiusCubed g b"
      using newRadiusCubed_gt [of g b] by linarith
    have "handleCollision cfg g b \<noteq> g"
      using handleCollision_grow(3) [OF pos, of cfg] by auto
    then have lt: "sphereSize g < sphereSize (handleCollision cfg g b)"
      by (rule handleCollision_radius_mono(2))
    have "newRadiusCubed g b = (3 * (calculateSphereVolume (sphereSize g) + 1)) / (4 * pi)"
      using that(1) by (simp add: newRadiusCubed_def absorbedVolume_def calculateSphereVolume_def
          mult.commute)
    then show ?thesis
      using handleCollision_grow [OF pos, of cfg] lt by simp
  qed
  show ?thesis using skip dflt by blast
qed

lemma inv_4pi_small: "3 / (4 * pi) < 1"
  using pi_ge_two by simp

lemma box_simps:
  "ud_size zeroBox = 0" "geometry zeroBox = BoxGeometry 0 0 0"
  "ud_size tinyFar = 1" "geometry tinyFar = BoxGeometry 1 1 1"
  by (simp_all add: zeroBox_def tinyFar_def createObject_def Let_def)

theorem invalid_radius_skips_absorption_witness:
  "Math_pow_third (newRadiusCubed gameNegative tinyFar) = None
   \<and> handleCollision config0 gameNegative tinyFar = gameNegative
   \<and> foldl (handleCollision config0) gameNegative [tinyFar, smallSphere]
        = foldl (handleCollision config0) gameNegative [smallSphere]
   \<and> objectVolume zeroBox \<le> 0 \<and> 0 \<le> sphereSize game1
   \<and> sphereSize game1 < sphereSize (handleCollision config0 game1 zeroBox)
   \<and> itemsAbsorbed (handleCollision config0 game1 zeroBox) = itemsAbsorbed game1 + 1"
proof -
  have "newRadiusCubed gameNegative tinyFar = - 1 + 3 / (4 * pi)"
    by (simp add: newRadiusCubed_eq absorbedVolume_def objectVolume_def box_simps
          gameNegative_def game1_def)
  then have "newRadiusCubed gameNegative tinyFar < 0"
    using inv_4pi_small by simp
  then have n: "Math_pow_third (newRadiusCubed gameNegative tinyFar) = None"
    by (simp add: Math_pow_third_def)
  have z: "objectVolume zeroBox \<le> 0" "0 \<le> sphereSize game1"
    by (simp_all add: objectVolume_def box_simps game1_def)
  show ?thesis
    using invalid_radius_skips_absorption [of gameNegative tinyFar config0 "[smallSphere]"]
      invalid_radius_skips_absorption [of game1 zeroBox config0 "[]"] n z
    by simp
qed

text \<open>
  C3 as stated fails for a body whose computed volume is 0: the absorption takes
  place and the player's radius grows.
\<close>

theorem invalid_volume_still_absorbed:
  "objectVolume zeroBox \<le> 0
   \<and> sphereSize game1 < sphereSize (handleCollision config0 game1 zeroBox)
   \<and> handleCollision config0 game1 zeroBox \<noteq> game1"
proof -
  have z: "objectVolume zeroBox \<le> 0"
    by (simp add: objectVolume_def box_simps)
  have "0 \<le> sphereSize game1 ^ 3" by (simp add: game1_def)
  then have pos: "0 < newRadiusCubed game1 zeroBox"
    using newRadiusCubed_gt [of game1 zeroBox] by linarith
  have ne: "handleCollision config0 game1 zeroBox \<noteq> game1"
    using handleCollision_grow(3) [OF pos, of config0] by auto
  then have "sphereSize game1 < sphereSize (handleCollision config0 game1 zeroBox)"
    by (rule handleCollision_radius_mono(2))
  with z ne show ?thesis by simp
qed

lemma handleLarger_radius: "p_radius (handleLargerObjectCollision r pl c) = p_radius pl"
  by (simp add: handleLargerObjectCollision_def Let_def)

lemma handleLargers_radius: "p_radius (handleLargerObjectCollisions pl cs r) = p_radius pl"
  unfolding handleLargerObjectCollisions_def
  by (induction cs arbitrary: pl) (simp_all add: handleLarger_radius)

lemma handleBarrier_radius: "p_radius (handleBarrierCollision pp r pl b) = p_radius pl"
  by (simp add: handleBarrierCollision_def Let_def split: option.split)

lemma handleBarriers_foldl_radius:
  "p_radius (foldl (handleBarrierCollision pp r) pl bs) = p_radius pl"
  by (induction bs arbitrary: pl) (simp_all add: handleBarrier_radius)

lemma checkCollisions_radius: "p_radius (snd (checkCollisions pl objs r)) = p_radius pl"
  by (simp add: checkCollisions_def Let_def handleBarrierCollisions_def
        handleBarriers_foldl_radius handleLargers_radius)

lemma applyPhysics_radius: "p_radius (applyPhysics pl delta) = p_radius pl"
  by (simp add: applyPhysics_def Let_def split: prod.split)

lemma inputUpdate_radius: "p_radius (snd (inputUpdate cfg keys delta (cam, pl))) = p_radius pl"
  by (simp add: inputUpdate_def Let_def)

lemma handleCollision_radius_inv:
  "p_radius (player g) = sphereSize g \<Longrightarrow>
     p_radius (player (handleCollision cfg g b)) = sphereSize (handleCollision cfg g b)"
proof (cases "0 < newRadiusCubed g b")
  case True
  then show ?thesis by (simp add: handleCollision_grow)
next
  case False
  assume "p_radius (player g) = sphereSize g"
  with False show ?thesis by (simp add: handleCollision_skip)
qed

lemma absorb_all_radius:
  "sphereSize g \<le> sphereSize (foldl (handleCollision cfg) g cs)"
proof (induction cs arbitrary: g)
  case Nil
  show ?case by simp
next
  case (Cons c cs)
  have "sphereSize g \<le> sphereSize (handleCollision cfg g c)"
    by (rule handleCollision_radius_mono(1))
  also have "\<dots> \<le> sphereSize (foldl (handleCollision cfg) (handleCollision cfg g c) cs)"
    by (rule Cons.IH)
  finally show ?case by simp
qed

lemma absorb_all_radius_inv:
  "p_radius (player g) = sphereSize g \<Longrightarrow>
     p_radius (player (foldl (handleCollision cfg) g cs))
       = sphereSize (foldl (handleCollision cfg) g cs)"
  by (induction cs arbitrary: g) (simp_all add: handleCollision_radius_inv)

lemma handleCollisions_radius:
  assumes "handleCollisions cfg lookup rnd g cs = Inr g'"
  shows "sphereSize g' = sphereSize (foldl (handleCollision cfg) g cs)"
    and "player g' = player (foldl (handleCollision cfg) g cs)"
  using assms
  by (auto simp add: handleCollisions_def Let_def split: sum.splits)

lemma gameLoop_radius:
  assumes "gameLoop cfg lookup rnd keys delta g = Inr g'"
  shows "sphereSize g \<le> sphereSize g'"
    and "p_radius (player g) = sphereSize g \<Longrightarrow> p_radius (player g') = sphereSize g'"
proof -
  obtain cam1 p1 where i: "inputUpdate cfg keys delta (cameraController g, player g) = (cam1, p1)"
    by (cases "inputUpdate cfg keys delta (cameraController g, player g)")
  obtain cs p2 where c: "checkCollisions p1 (objects g) (sphereSize g) = (cs, p2)"
    by (cases "checkCollisions p1 (objects g) (sphereSize g)")
  let ?g1 = "g\<lparr>player := applyPhysics p2 delta, cameraController := cam1\<rparr>"
  have r1: "p_radius p1 = p_radius (player g)"
    using inputUpdate_radius [of cfg keys delta "cameraController g" "player g"] by (simp add: i)
  have r2: "p_radius p2 = p_radius p1"
    using checkCollisions_radius [of p1 "objects g" "sphereSize g"] by (simp add: c)
  have r3: "p_radius (player ?g1) = p_radius (player g)"
    by (simp add: applyPhysics_radius r1 r2)
  have s1: "sphereSize ?g1 = sphereSize g" by simp
  obtain g2 where g2: "(if cs \<noteq> [] then handleCollisions cfg lookup rnd ?g1 cs else Inr ?g1) = Inr g2"
    and g': "g' = g2\<lparr>cameraController :=
                       updateCameraForSize cfg (cameraController g2) (p_radius (player g2))\<rparr>"
    using assms by (auto simp add: gameLoop_def i c Let_def split: sum.splits)
  have m: "sphereSize g \<le> sphereSize g2
           \<and> (p_radius (player g) = sphereSize g \<longrightarrow> p_radius (player g2) = sphereSize g2)"
  proof (cases "cs = []")
    case True
    with g2 have "g2 = ?g1" by simp
    then show ?thesis using r3 by simp
  next
    case False
    with g2 have h: "handleCollisions cfg lookup rnd ?g1 cs = Inr g2" by simp
    show ?thesis
      using handleCollisions_radius [OF h] absorb_all_radius [of ?g1 cfg cs]
        absorb_all_radius_inv [of ?g1 cfg cs] r3 s1
      by simp
  qed
  show "sphereSize g \<le> sphereSize g'" using m by (simp add: g')
  show "p_radius (player g') = sphereSize g'" if "p_radius (player g) = sphereSize g"
    using m that by (simp add: g')
qed

lemma runSession_radius:
  "runSession cfg lookup rnd frames g = Inr g' \<Longrightarrow>
     sphereSize g \<le> sphereSize g'
     \<and> (p_radius (player g) = sphereSize g \<longrightarrow> p_radius (player g') = sphereSize g')"
proof (induction frames arbitrary: g)
  case Nil
  then show ?case by simp
next
  case (Cons f frames)
  obtain keys delta where f: "f = (keys, delta)" by (cases f)
  from Cons.prems obtain g1 where 1: "gameLoop cfg lookup rnd keys delta g = Inr g1"
    and 2: "runSession cfg lookup rnd frames g1 = Inr g'"
    by (auto simp add: f split: sum.splits)
  show ?case
    using gameLoop_radius [OF 1] Cons.IH [OF 2] by auto
qed

lemma checkAndSpawnObjects_disabled:
  "\<not> RESPAWN_OBJECTS cfg \<Longrightarrow>
     checkAndSpawnObjects cfg playerPosition objs playerSize rnd i = Inr (objs, i)"
  by (simp add: checkAndSpawnObjects_def)

lemma gameLoop_returns:
  "\<not> RESPAWN_OBJECTS cfg \<Longrightarrow> \<exists>g'. gameLoop cfg lookup rnd keys delta g = Inr g'"
  by (simp add: gameLoop_def handleCollisions_def checkAndSpawnObjects_disabled Let_def
        split: prod.split)

lemma runSession_returns:
  "\<not> RESPAWN_OBJECTS cfg \<Longrightarrow> \<exists>g'. runSession cfg lookup rnd frames g = Inr g'"
proof (induction frames arbitrary: g)
  case Nil
  show ?case by simp
next
  case (Cons f frames)
  obtain keys delta where f: "f = (keys, delta)" by (cases f)
  from gameLoop_returns [OF Cons.prems]
  obtain g1 where "gameLoop cfg lookup rnd keys delta g = Inr g1" by blast
  with Cons.IH [OF Cons.prems, of g1] show ?case by (simp add: f)
qed

text \<open>
  C5. No absorption decreases the player's radius, and every absorption that takes
  place (that changes the game state) makes it strictly greater. The other operations
  of a pass of the game loop (input, collision response, physics) leave the radius as
  it is, so over a whole session the radius never decreases, and the radius of the
  player's mesh stays equal to it.
\<close>

theorem radius_never_decreases:
  "sphereSize g \<le> sphereSize (handleCollision cfg g b)
   \<and> (handleCollision cfg g b \<noteq> g \<longrightarrow> sphereSize g < sphereSize (handleCollision cfg g b))
   \<and> sphereSize g \<le> sphereSize (foldl (handleCollision cfg) g cs)
   \<and> p_radius (snd (inputUpdate cfg keys delta (cam, pl))) = p_radius pl
   \<and> p_radius (snd (checkCollisions pl objs r)) = p_radius pl
   \<and> p_radius (applyPhysics pl delta) = p_radius pl
   \<and> (runSession cfg lookup rnd frames g = Inr g'
      \<longrightarrow> sphereSize g \<le> sphereSize g'
        \<and> (p_radius (player g) = sphereSize g \<longrightarrow> p_radius (player g') = sphereSize g'))"
  using runSession_radius [of cfg lookup rnd frames g g']
  by (simp add: handleCollision_radius_mono absorb_all_radius inputUpdate_radius
        checkCollisions_radius applyPhysics_radius)

theorem radius_never_decreases_witness:
  "handleCollision config_no_respawn game1 smallSphere \<noteq> game1
   \<and> sphereSize game1 < sphereSize (handleCollision config_no_respawn game1 smallSphere)
   \<and> (\<exists>g'. runSession config_no_respawn (\<lambda>p. None) (\<lambda>k. 0)
               [(noKeys, 1 / 60), (noKeys, 1 / 60)] game1 = Inr g'
           \<and> sphereSize game1 \<le> sphereSize g'
           \<and> p_radius (player g') = sphereSize g')"
proof -
  have "\<not> RESPAWN_OBJECTS config_no_respawn"
    by (simp add: config_no_respawn_def config0_def)
  then obtain g' where
    r: "runSession config_no_respawn (\<lambda>p. None) (\<lambda>k. 0) [(noKeys, 1 / 60), (noKeys, 1 / 60)] game1
          = Inr g'"
    using runSession_returns by blast
  have i: "p_radius (player game1) = sphereSize game1" by (simp add: game1_def)
  have "0 \<le> sphereSize game1 ^ 3" by (simp add: game1_def)
  then have pos: "0 < newRadiusCubed game1 smallSphere"
    using newRadiusCubed_gt [of game1 smallSphere] by linarith
  have ne: "handleCollision config_no_respawn game1 smallSphere \<noteq> game1"
    using handleCollision_grow(3) [OF pos, of config_no_respawn] by auto
  from r i ne radius_never_decreases [of game1 config_no_respawn smallSphere "[]" noKeys "1 / 60"
      camera0 "player game1" "[]" 1 "\<lambda>p. None" "\<lambda>k. 0" "[(noKeys, 1 / 60), (noKeys, 1 / 60)]" g']
  show ?thesis by blast
qed

section \<open>Camera distance and field of view\<close>

lemma updateCamera_distance:
  "cam_distance (updateCameraForSize cfg cam r)
     = (if r \<le> 0 then 1 else r) * distancePerSize cfg (cam_fov cam)"
  by (simp add: updateCameraForSize_def distancePerSize_def Let_def)

lemma updateCamera_distance_explicit:
  "0 < r \<Longrightarrow>
     cam_distance (updateCameraForSize cfg cam r)
       = r / (or_number (Some (MAX_SCREEN_PERCENTAGE cfg)) 30 / 100)
           / tan (cam_fov cam * pi / 180 / 2)
           * or_number (Some (CAMERA_ZOOM_RATE cfg)) 1.5 * max 1 (PLAYABLE_AREA cfg / 400)"
  by (simp add: updateCameraForSize_def Let_def)

lemma updateCamera_fov:
  "cam_fov (updateCameraForSize cfg cam r)
     = max 60 (min 100 (75 - 5 + (if r \<le> 0 then 1 else r) * 0.2))"
  by (simp add: updateCameraForSize_def Let_def)

lemma distancePerSize_nonneg:
  assumes "0 < fov" "fov < 180" "0 \<le> MAX_SCREEN_PERCENTAGE cfg" "0 \<le> CAMERA_ZOOM_RATE cfg"
  shows "0 \<le> distancePerSize cfg fov"
proof -
  have p: "0 < or_number (Some (MAX_SCREEN_PERCENTAGE cfg)) 30"
    using assms(3) by (simp add: or_number_def)
  have z: "0 < or_number (Some (CAMERA_ZOOM_RATE cfg)) 1.5"
    using assms(4) by (simp add: or_number_def)
  have "0 < fov * pi / 180 / 2" using assms(1) by simp
  moreover have "fov * pi / 180 / 2 < pi / 2" using assms(2) by simp
  ultimately have t: "0 < tan (fov * pi / 180 / 2)" by (rule tan_gt_zero)
  have s: "0 < max 1 (PLAYABLE_AREA cfg / 400)" by simp
  have "0 < 1 / (or_number (Some (MAX_SCREEN_PERCENTAGE cfg)) 30 / 100) / tan (fov * pi / 180 / 2)"
    using p t by simp
  then have "0 < 1 / (or_number (Some (MAX_SCREEN_PERCENTAGE cfg)) 30 / 100)
                   / tan (fov * pi / 180 / 2)
                   * or_number (Some (CAMERA_ZOOM_RATE cfg)) 1.5 * max 1 (PLAYABLE_AREA cfg / 400)"
    using z s by (intro mult_pos_pos)
  then show ?thesis by (simp only: distancePerSize_def less_imp_le)
qed

text \<open>
  C8, as the code has it. For a positive radius the camera distance is
  \<open>radius / (percentage / 100) / tan (fov / 2)\<close>, times the zoom rate, times the scale of
  the playable area, where \<open>fov\<close> is the field of view that the camera has when the
  update starts (the one that the previous update left). The field of view is
  recomputed after the distance, as \<open>clamp (75 - 5 + radius * 0.2, 60, 100)\<close>, and the
  height is half the distance. For a fixed field of view between 0 and 180 degrees
  and non-negative percentage and zoom rate, the distance is a non-decreasing function
  of the positive radius.
\<close>

theorem camera_distance_from_entry_fov:
  "(0 < r \<longrightarrow>
      cam_distance (updateCameraForSize cfg cam r)
        = r / (or_number (Some (MAX_SCREEN_PERCENTAGE cfg)) 30 / 100)
            / tan (cam_fov cam * pi / 180 / 2)
            * or_number (Some (CAMERA_ZOOM_RATE cfg)) 1.5 * max 1 (PLAYABLE_AREA cfg / 400)
      \<and> cam_fov (updateCameraForSize cfg cam r) = max 60 (min 100 (75 - 5 + r * 0.2)))
   \<and> cam_height (updateCameraForSize cfg cam r)
        = cam_distance (updateCameraForSize cfg cam r) * 0.5
   \<and> (0 < r1 \<and> r1 \<le> r2 \<and> 0 < cam_fov cam \<and> cam_fov cam < 180
        \<and> 0 \<le> MAX_SCREEN_PERCENTAGE cfg \<and> 0 \<le> CAMERA_ZOOM_RATE cfg
      \<longrightarrow> cam_distance (updateCameraForSize cfg cam r1)
            \<le> cam_distance (updateCameraForSize cfg cam r2))"
proof -
  have mono: "cam_distance (updateCameraForSize cfg cam r1)
            \<le> cam_distance (updateCameraForSize cfg cam r2)"
    if "0 < r1" "r1 \<le> r2" "0 < cam_fov cam" "cam_fov cam < 180"
      "0 \<le> MAX_SCREEN_PERCENTAGE cfg" "0 \<le> CAMERA_ZOOM_RATE cfg"
  proof -
    have "0 \<le> distancePerSize cfg (cam_fov cam)"
      using that(3-6) by (rule distancePerSize_nonneg)
    then have "r1 * distancePerSize cfg (cam_fov cam) \<le> r2 * distancePerSize cfg (cam_fov cam)"
      using that(2) by (rule mult_right_mono [rotated])
    then show ?thesis
      using that(1,2) by (simp add: updateCamera_distance)
  qed
  have h: "cam_height (updateCameraForSize cfg cam r)
        = cam_distance (updateCameraForSize cfg cam r) * 0.5"
    by (simp add: updateCameraForSize_def Let_def)
  show ?thesis
    using mono h updateCamera_distance_explicit [of r cfg cam] updateCamera_fov [of cfg cam r]
    by simp
qed

lemma config0_camera:
  "or_number (Some (MAX_SCREEN_PERCENTAGE config0)) 30 = 30"
  "or_number (Some (CAMERA_ZOOM_RATE config0)) 1.5 = 1.5"
  "max 1 (PLAYABLE_AREA config0 / 400) = 1"
  "MAX_SCREEN_PERCENTAGE config0 = 30" "CAMERA_ZOOM_RATE config0 = 1.5"
  by (simp_all add: config0_def or_number_def)

theorem camera_distance_from_entry_fov_witness:
  "cam_distance (updateCameraForSize config0 camera0 100)
     = 100 / (30 / 100) / tan (75 * pi / 180 / 2) * 1.5 * 1
   \<and> cam_fov (updateCameraForSize config0 camera0 100) = 90
   \<and> cam_distance (updateCameraForSize config0 camera0 1)
       \<le> cam_distance (updateCameraForSize config0 camera0 2)"
proof -
  have f: "cam_fov camera0 = 75" by (simp add: camera0_def)
  show ?thesis
    using camera_distance_from_entry_fov [of 100 config0 camera0 1 2]
    by (simp add: f config0_camera or_number_def)
qed

text \<open>
  C8 as stated fails: for a camera at 75 degrees and a radius of 100 the update sets
  the field of view to 90 degrees, but the distance it sets is the one for 75
  degrees, not the one for the recomputed field of view.
\<close>

theorem camera_distance_uses_stale_fov:
  "cam_fov camera0 = 75
   \<and> cam_fov (updateCameraForSize config0 camera0 100) = 90
   \<and> cam_distance (updateCameraForSize config0 camera0 100)
       = 100 / (30 / 100) / tan (75 * pi / 180 / 2) * 1.5 * 1
   \<and> cam_distance (updateCameraForSize config0 camera0 100)
       \<noteq> 100 / (30 / 100) / tan (90 * pi / 180 / 2) * 1.5 * 1"
proof -
  have f: "cam_fov camera0 = 75" by (simp add: camera0_def)
  have d: "cam_distance (updateCameraForSize config0 camera0 100)
       = 100 / (30 / 100) / tan (75 * pi / 180 / 2) * 1.5 * 1"
    by (simp add: updateCamera_distance_explicit f config0_camera or_number_def)
  have "- (pi / 2) < 75 * pi / 180 / 2"
    by (rule less_trans [of _ 0]) simp_all
  moreover have "75 * pi / 180 / 2 < 90 * pi / 180 / 2" by simp
  moreover have "90 * pi / 180 / 2 < pi / 2" by simp
  ultimately have lt: "tan (75 * pi / 180 / 2) < tan (90 * pi / 180 / 2)"
    by (rule tan_monotone)
  have "0 < 75 * pi / 180 / 2" by simp
  moreover have "75 * pi / 180 / 2 < pi / 2" by simp
  ultimately have p: "0 < tan (75 * pi / 180 / 2)" by (rule tan_gt_zero)
  have "100 / (30 / 100) / tan (75 * pi / 180 / 2) * 1.5 * 1
               \<noteq> 100 / (30 / 100) / tan (90 * pi / 180 / 2) * 1.5 * 1"
    using lt p by (simp add: field_simps)
  with d show ?thesis
    by (simp add: updateCamera_fov f)
qed

section \<open>The placement allocator\<close>

lemma hasOverlap_iff:
  "hasOverlap pos effR objs \<longleftrightarrow>
     (\<exists>b \<in> set objs. planarDistance pos (position b)
                        < effR + effectiveRadius (ud_type b) (ud_size b) + 0.5)"
  by (induction objs) (auto simp add: Let_def)

lemma findAttempts_step:
  "findAttempts (Suc n) maxCoord effR playerSize pp objs rnd i =
     (if rejected playerSize effR pp objs (candidatePosition maxCoord rnd i 0)
      then findAttempts n maxCoord effR playerSize pp objs rnd (i + 2)
      else (Some (candidatePosition maxCoord rnd i 0), i + 2))"
  by (simp add: rejected_def candidatePosition_def Let_def)

lemma candidate_shift:
  "candidatePosition maxCoord rnd (i + 2) k = candidatePosition maxCoord rnd i (Suc k)"
  by (simp add: candidatePosition_def add.commute add.left_commute)

lemma findAttempts_Some:
  "findAttempts n maxCoord effR playerSize pp objs rnd i = (Some pos, j) \<Longrightarrow>
     \<exists>k<n. j = i + 2 * (k + 1) \<and> pos = candidatePosition maxCoord rnd i k
           \<and> \<not> rejected playerSize effR pp objs pos
           \<and> (\<forall>k'<k. rejected playerSize effR pp objs (candidatePosition maxCoord rnd i k'))"
proof (induction n arbitrary: i)
  case 0
  then show ?case by simp
next
  case (Suc n)
  show ?case
  proof (cases "rejected playerSize effR pp objs (candidatePosition maxCoord rnd i 0)")
    case False
    with Suc.prems have "(Some (candidatePosition maxCoord rnd i 0), i + 2) = (Some pos, j)"
      by (simp only: findAttempts_step if_False)
    then have "pos = candidatePosition maxCoord rnd i 0" "j = i + 2"
      by simp_all
    with False show ?thesis by (intro exI [of _ 0]) simp
  next
    case True
    with Suc.prems
    have "findAttempts n maxCoord effR playerSize pp objs rnd (i + 2) = (Some pos, j)"
      by (simp only: findAttempts_step if_True)
    from Suc.IH [OF this] obtain k where k: "k < n" "j = i + 2 + 2 * (k + 1)"
      "pos = candidatePosition maxCoord rnd (i + 2) k"
      "\<not> rejected playerSize effR pp objs pos"
      "\<forall>k'<k. rejected playerSize effR pp objs (candidatePosition maxCoord rnd (i + 2) k')"
      by blast
    have "rejected playerSize effR pp objs (candidatePosition maxCoord rnd i k')"
      if "k' < Suc k" for k'
    proof (cases k')
      case 0
      with True show ?thesis by simp
    next
      case (Suc m)
      with that have "m < k" by simp
      with k(5) have "rejected playerSize effR pp objs (candidatePosition maxCoord rnd (i + 2) m)"
        by blast
      then show ?thesis by (simp only: candidate_shift Suc)
    qed
    moreover have "pos = candidatePosition maxCoord rnd i (Suc k)"
      using k(3) by (simp only: candidate_shift)
    moreover have "j = i + 2 * (Suc k + 1)" using k(2) by simp
    moreover have "Suc k < Suc n" using k(1) by simp
    ultimately show ?thesis using k(4) by blast
  qed
qed

lemma findAttempts_None:
  "\<forall>k<n. rejected playerSize effR pp objs (candidatePosition maxCoord rnd i k) \<Longrightarrow>
     findAttempts n maxCoord effR playerSize pp objs rnd i = (None, i + 2 * n)"
proof (induction n arbitrary: i)
  case 0
  show ?case by simp
next
  case (Suc n)
  have 0: "rejected playerSize effR pp objs (candidatePosition maxCoord rnd i 0)"
    using Suc.prems by simp
  have "\<forall>k<n. rejected playerSize effR pp objs (candidatePosition maxCoord rnd (i + 2) k)"
    unfolding candidate_shift using Suc.prems by auto
  from Suc.IH [OF this]
  have "findAttempts n maxCoord effR playerSize pp objs rnd (i + 2) = (None, i + 2 * Suc n)"
    by simp
  with 0 show ?case
    by (simp only: findAttempts_step if_True)
qed

lemma planar_le_distanceTo: "planarDistance a b \<le> distanceTo a b"
proof -
  have "(X a - X b)\<^sup>2 + (Z a - Z b)\<^sup>2
          \<le> (X a - X b) * (X a - X b) + (Y a - Y b) * (Y a - Y b) + (Z a - Z b) * (Z a - Z b)"
    by (simp add: power2_eq_square)
  then show ?thesis
    by (simp add: planarDistance_def distanceTo_def length_v_def lengthSq_def subVectors_def)
qed

lemma randomInRange_bounds:
  assumes "0 \<le> m" "0 \<le> u" "u < 1"
  shows "\<bar>randomInRange (- m) m u\<bar> \<le> m"
proof -
  have "randomInRange (- m) m u = m * (2 * u - 1)"
    by (simp add: randomInRange_def algebra_simps)
  moreover have "\<bar>2 * u - 1\<bar> \<le> 1" using assms(2,3) by simp
  ultimately show ?thesis
    using assms(1) by (simp add: abs_mult mult_left_le)
qed

text \<open>
  What the allocator guarantees, relative to the result of its scene lookup. A
  position that it returns keeps the distance of the player's size plus the
  candidate's effective radius plus the margin 5 from the position that the lookup
  found, if it found one; it keeps the candidate's effective radius plus the object's
  effective radius plus the buffer 0.5 from the centre of every existing object; it
  is one of the first \<open>MAX_ATTEMPTS = 50\<close> candidates, each drawn in
  \<open>[-maxCoord, maxCoord]\<^sup>2\<close> with \<open>maxCoord = min (PLAYABLE_AREA, MAP_SIZE / 2 - size)\<close>;
  and when all 50 candidates are rejected the allocator returns null.
\<close>

lemma findNonOverlappingPosition_clearance:
  "(findNonOverlappingPosition cfg pp objs s gt playerSize rnd i = (Some pos, j) \<longrightarrow>
      (\<forall>p. pp = Some p \<longrightarrow>
           playerSize + effectiveRadius gt s + 5 \<le> planarDistance pos p
         \<and> playerSize + effectiveRadius gt s + 5 \<le> distanceTo pos p)
    \<and> (\<forall>b \<in> set objs.
           effectiveRadius gt s + effectiveRadius (ud_type b) (ud_size b) + 0.5
             \<le> planarDistance pos (position b)
         \<and> effectiveRadius gt s + effectiveRadius (ud_type b) (ud_size b) + 0.5
             \<le> distanceTo pos (position b))
    \<and> (0 \<le> min (PLAYABLE_AREA cfg) (MAP_SIZE cfg / 2 - s) \<and> (\<forall>k. 0 \<le> rnd k \<and> rnd k < 1)
         \<longrightarrow> \<bar>X pos\<bar> \<le> min (PLAYABLE_AREA cfg) (MAP_SIZE cfg / 2 - s)
           \<and> \<bar>Z pos\<bar> \<le> min (PLAYABLE_AREA cfg) (MAP_SIZE cfg / 2 - s))
    \<and> (\<exists>k<MAX_ATTEMPTS.
           pos = candidatePosition (min (PLAYABLE_AREA cfg) (MAP_SIZE cfg / 2 - s)) rnd i k
         \<and> j = i + 2 * (k + 1)))
   \<and> ((\<forall>k<MAX_ATTEMPTS.
          rejected playerSize (effectiveRadius gt s) pp objs
            (candidatePosition (min (PLAYABLE_AREA cfg) (MAP_SIZE cfg / 2 - s)) rnd i k))
       \<longrightarrow> findNonOverlappingPosition cfg pp objs s gt playerSize rnd i
             = (None, i + 2 * MAX_ATTEMPTS))
   \<and> MAX_ATTEMPTS = 50"
proof -
  let ?m = "min (PLAYABLE_AREA cfg) (MAP_SIZE cfg / 2 - s)"
  let ?e = "effectiveRadius gt s"
  have f: "findNonOverlappingPosition cfg pp objs s gt playerSize rnd i
             = findAttempts MAX_ATTEMPTS ?m ?e playerSize pp objs rnd i"
    by (simp add: findNonOverlappingPosition_def Let_def)
  have found:
      "(\<forall>p. pp = Some p \<longrightarrow>
           playerSize + ?e + 5 \<le> planarDistance pos p
         \<and> playerSize + ?e + 5 \<le> distanceTo pos p)
    \<and> (\<forall>b \<in> set objs.
           ?e + effectiveRadius (ud_type b) (ud_size b) + 0.5 \<le> planarDistance pos (position b)
         \<and> ?e + effectiveRadius (ud_type b) (ud_size b) + 0.5 \<le> distanceTo pos (position b))
    \<and> (0 \<le> ?m \<and> (\<forall>k. 0 \<le> rnd k \<and> rnd k < 1) \<longrightarrow> \<bar>X pos\<bar> \<le> ?m \<and> \<bar>Z pos\<bar> \<le> ?m)
    \<and> (\<exists>k<MAX_ATTEMPTS. pos = candidatePosition ?m rnd i k \<and> j = i + 2 * (k + 1))"
    if "findNonOverlappingPosition cfg pp objs s gt playerSize rnd i = (Some pos, j)"
  proof -
    from that have "findAttempts MAX_ATTEMPTS ?m ?e playerSize pp objs rnd i = (Some pos, j)"
      by (simp only: f)
    from findAttempts_Some [OF this] obtain k where k: "k < MAX_ATTEMPTS" "j = i + 2 * (k + 1)"
      "pos = candidatePosition ?m rnd i k" "\<not> rejected playerSize ?e pp objs pos"
      by blast
    have a: "playerSize + ?e + 5 \<le> planarDistance pos p" if "pp = Some p" for p
      using k(4) that by (simp add: rejected_def)
    have b: "?e + effectiveRadius (ud_type b) (ud_size b) + 0.5 \<le> planarDistance pos (position b)"
      if "b \<in> set objs" for b
    proof -
      from k(4) have "\<not> hasOverlap pos ?e objs" by (simp add: rejected_def)
      with that show ?thesis by (auto simp add: hasOverlap_iff not_less)
    qed
    have c: "\<bar>X pos\<bar> \<le> ?m \<and> \<bar>Z pos\<bar> \<le> ?m"
      if "0 \<le> ?m" "\<forall>k. 0 \<le> rnd k \<and> rnd k < 1"
      using that randomInRange_bounds [of ?m "rnd (i + 2 * k)"]
        randomInRange_bounds [of ?m "rnd (i + 2 * k + 1)"]
      by (simp add: k(3) candidatePosition_def)
    have a': "playerSize + ?e + 5 \<le> distanceTo pos p" if "pp = Some p" for p
      using a [OF that] planar_le_distanceTo [of pos p] by (rule order_trans)
    have b': "?e + effectiveRadius (ud_type b) (ud_size b) + 0.5 \<le> distanceTo pos (position b)"
      if "b \<in> set objs" for b
      using b [OF that] planar_le_distanceTo [of pos "position b"] by (rule order_trans)
    have d: "\<exists>k<MAX_ATTEMPTS. pos = candidatePosition ?m rnd i k \<and> j = i + 2 * (k + 1)"
      using k(1,2,3) by blast
    show ?thesis
      using a a' b b' c d by blast
  qed
  have none: "findNonOverlappingPosition cfg pp objs s gt playerSize rnd i
             = (None, i + 2 * MAX_ATTEMPTS)"
    if "\<forall>k<MAX_ATTEMPTS. rejected playerSize ?e pp objs (candidatePosition ?m rnd i k)"
    using findAttempts_None [OF that] by (simp only: f)
  have "MAX_ATTEMPTS = 50" by (simp add: MAX_ATTEMPTS_def)
  with found none show ?thesis by blast
qed

lemma planar_on_axis: "planarDistance (Vector3 a y 0) (Vector3 b y' 0) = \<bar>a - b\<bar>"
  by (simp add: planarDistance_def)

lemma config0_maxCoord: "min (PLAYABLE_AREA config0) (MAP_SIZE config0 / 2 - 1) = 400"
  by (simp add: config0_def)

lemma scene_lookup_fails: "scenePlayerPosition (gameScene g) = None"
proof -
  have "find (\<lambda>obj. so_name obj = ''playerSphere'') (gameScene g) = None"
    by (simp add: find_None_iff gameScene_def playerSceneObject_def meshSceneObject_def)
  then show ?thesis
    by (simp add: scenePlayerPosition_def getObjectByName_def)
qed

lemma lookup_failed_accepts_near_player:
  "\<not> hasOverlap (candidatePosition maxCoord rnd i 0) effR objs \<Longrightarrow>
     findAttempts (Suc n) maxCoord effR playerSize None objs rnd i
       = (Some (candidatePosition maxCoord rnd i 0), i + 2)"
  by (simp only: findAttempts_step rejected_def option.case simp_thms if_False)

text \<open>
  C4. The claim asks that every position that the allocator returns is at least the
  player's radius plus the candidate's effective radius plus the margin away from
  the player's centre. The code fails it: the allocator looks the player up in the
  scene by the name \<^verbatim>\<open>playerSphere\<close>, which no mesh of the game carries, so the lookup
  is null and the test of the distance to the player is skipped. In the game as
  \<^verbatim>\<open>start\<close> has it, with the configuration of \<^verbatim>\<open>main.js\<close> and two draws of 1/2, the
  allocator returns for a sphere of size 1 the point of the ground straight below
  the player's centre, at distance 0 in the ground plane, where the claim asks for
  at least \<open>1 + 1 + 5\<close>.
\<close>

theorem allocator_places_on_player:
  "scenePlayerPosition (gameScene (startGame config0)) = None
   \<and> findNonOverlappingPosition config0 (scenePlayerPosition (gameScene (startGame config0)))
        (objects (startGame config0)) 1 ''sphere'' (sphereSize (startGame config0)) rndHalf 0
        = (Some (Vector3 0 0 0), 2)
   \<and> planarDistance (Vector3 0 0 0) (p_position (player (startGame config0))) = 0
   \<and> distanceTo (Vector3 0 0 0) (p_position (player (startGame config0))) = 3 / 2
   \<and> sphereSize (startGame config0) + effectiveRadius ''sphere'' 1 + 5 = 7"
proof -
  have g: "objects (startGame config0) = []" "sphereSize (startGame config0) = 1"
    "p_position (player (startGame config0)) = Vector3 0 (3 / 2) 0"
    by (simp_all add: startGame_def createPlayerSphere_def)
  have c: "candidatePosition 400 rndHalf 0 0 = Vector3 0 0 0"
    by (simp add: candidatePosition_def rndHalf_def randomInRange_def)
  have "findAttempts (Suc 49) 400 (effectiveRadius ''sphere'' 1) 1 None [] rndHalf 0
          = (Some (candidatePosition 400 rndHalf 0 0), 0 + 2)"
    by (rule lookup_failed_accepts_near_player) simp
  then have f: "findNonOverlappingPosition config0 None [] 1 ''sphere'' 1 rndHalf 0
                  = (Some (Vector3 0 0 0), 2)"
    by (simp add: findNonOverlappingPosition_def Let_def config0_maxCoord MAX_ATTEMPTS_def c)
  have "sqrt (9 / 4) = 3 / 2"
    by (rule real_sqrt_unique) (simp_all add: power2_eq_square)
  then have d: "distanceTo (Vector3 0 0 0) (Vector3 0 (3 / 2) 0) = 3 / 2"
    by (simp add: distanceTo_def length_v_def lengthSq_def subVectors_def)
  show ?thesis
    by (simp add: scene_lookup_fails g f d planar_on_axis effectiveRadius_def)
qed

end
